theory Spec2Isabelle
  imports Complex_Main
begin

section \<open>Python and numpy primitives\<close>

text \<open>
  Python floats are modelled as \<^typ>\<open>real\<close>: the development verifies the arithmetic the
  code writes down, not its IEEE rounding.  Exceptions are values of \<open>py_error\<close>; a function
  that can raise returns \<open>py_error + 'a\<close>.  A leading underscore of a Python name is dropped.
\<close>

datatype py_error =
  KeyError | IndexError | ValueError | TypeError | ZeroDivisionError | AttributeError

text \<open>Python's true division of floats raises on a zero divisor.\<close>

definition py_truediv :: "real \<Rightarrow> real \<Rightarrow> py_error + real" where
  "py_truediv a b = (if b = 0 then Inl ZeroDivisionError else Inr (a / b))"

text \<open>\<^verbatim>\<open>np.mean(xs)\<close>, \<^verbatim>\<open>np.var(xs)\<close> (population variance, \<^verbatim>\<open>ddof=0\<close>) and
  \<^verbatim>\<open>np.std(xs)\<close>.  All call sites below pass the five values of a taste dictionary.\<close>

definition np_mean :: "real list \<Rightarrow> real" where
  "np_mean xs = sum_list xs / real (length xs)"

definition np_var :: "real list \<Rightarrow> real" where
  "np_var xs = np_mean (map (\<lambda>x. \<bar>x - np_mean xs\<bar> ^ 2) xs)"

definition np_std :: "real list \<Rightarrow> real" where
  "np_std xs = sqrt (np_var xs)"

text \<open>
  \<^verbatim>\<open>np.average(a, weights=w)\<close> on one-dimensional data: numpy raises \<^verbatim>\<open>TypeError\<close> for shapes
  that differ (no axis is given) and
  \<^verbatim>\<open>ZeroDivisionError("Weights sum to zero, can't be normalized")\<close> when the weights sum
  to zero, which includes the empty array.
\<close>

definition np_average :: "real list \<Rightarrow> real list \<Rightarrow> py_error + real" where
  "np_average a weights =
     (if length a \<noteq> length weights then Inl TypeError
      else if sum_list weights = 0 then Inl ZeroDivisionError
      else Inr (sum_list (map2 (*) a weights) / sum_list weights))"

text \<open>
  \<^verbatim>\<open>max(xs, key=f)\<close> keeps the first of several maximal items: a later item replaces the
  current one only when its key is strictly greater.  The empty sequence raises.
\<close>

fun py_max_from :: "('a \<Rightarrow> real) \<Rightarrow> 'a \<Rightarrow> 'a list \<Rightarrow> 'a" where
  "py_max_from f best [] = best"
| "py_max_from f best (x # xs) = py_max_from f (if f x > f best then x else best) xs"

definition py_max_key :: "('a \<Rightarrow> real) \<Rightarrow> 'a list \<Rightarrow> py_error + 'a" where
  "py_max_key f xs = (case xs of [] \<Rightarrow> Inl ValueError | x # rest \<Rightarrow> Inr (py_max_from f x rest))"

text \<open>
  \<^verbatim>\<open>sorted(xs, key=f)\<close> and \<^verbatim>\<open>sorted(xs, key=f, reverse=True)\<close>.  Both are stable: items
  with equal keys keep their original order, also under \<^verbatim>\<open>reverse=True\<close>.
\<close>

definition py_sorted :: "('a \<Rightarrow> real) \<Rightarrow> bool \<Rightarrow> 'a list \<Rightarrow> 'a list" where
  "py_sorted f reverse xs = (if reverse then sort_key (\<lambda>x. - f x) xs else sort_key f xs)"

text \<open>
  \<^verbatim>\<open>round(x, 1)\<close>: the nearest multiple of one tenth.  Where the real number \<open>x\<close> lies
  exactly between two tenths, the code's result is decided by the float that stands for
  \<open>x\<close>: \<^verbatim>\<open>round(10.35, 1)\<close> is 10.3, the float being slightly below 10.35, while
  \<^verbatim>\<open>round(0.75, 1)\<close> is 0.8.  The reals do not determine that choice, so it is the
  parameter \<open>tie_up\<close> (whether the tie at \<open>x\<close> goes up), and nothing is assumed about it.
\<close>

definition py_round1 :: "(real \<Rightarrow> bool) \<Rightarrow> real \<Rightarrow> real" where
  "py_round1 tie_up x =
     (let f = \<lfloor>x * 10\<rfloor>; r = x * 10 - of_int f in
      if r < 1 / 2 then of_int f / 10
      else if r > 1 / 2 then of_int (f + 1) / 10
      else if tie_up x then of_int (f + 1) / 10
      else of_int f / 10)"

section \<open>Strings\<close>

text \<open>
  \<^verbatim>\<open>str.lower()\<close> on the ASCII letters; other characters are left as they are.
  \<^verbatim>\<open>str.strip()\<close> removes the ASCII whitespace characters at both ends; the Unicode
  spaces that Python strips as well (such as U+00A0) are several bytes here and are kept.
  \<^verbatim>\<open>a in b\<close> on strings is the substring test.
\<close>

definition lower_char :: "char \<Rightarrow> char" where
  "lower_char c =
     (case map_of (zip ''ABCDEFGHIJKLMNOPQRSTUVWXYZ'' ''abcdefghijklmnopqrstuvwxyz'') c of
        Some l \<Rightarrow> l
      | None \<Rightarrow> c)"

definition str_lower :: "string \<Rightarrow> string" where
  "str_lower s = map lower_char s"

definition is_space :: "char \<Rightarrow> bool" where
  "is_space c = (c \<in> set [CHR '' '', CHR 0x09, CHR 0x0A, CHR 0x0B, CHR 0x0C, CHR 0x0D,
                            CHR 0x1C, CHR 0x1D, CHR 0x1E, CHR 0x1F])"

definition str_strip :: "string \<Rightarrow> string" where
  "str_strip s = rev (dropWhile is_space (rev (dropWhile is_space s)))"

fun str_in :: "string \<Rightarrow> string \<Rightarrow> bool" where
  "str_in a [] = (a = [])"
| "str_in a (c # cs) = (take (length a) (c # cs) = a \<or> str_in a cs)"

section \<open>Taste dictionaries\<close>

text \<open>
  Every taste dictionary of the program has exactly the keys
  \<^verbatim>\<open>'sweet', 'sour', 'bitter', 'savory', 'aromatic'\<close>, inserted in this order
  (\<^verbatim>\<open>_empty_profile\<close>, \<^verbatim>\<open>_compute_taste_scores\<close> and the comprehension over
  \<^verbatim>\<open>taste_dimensions\<close> in \<^verbatim>\<open>_aggregate_profiles\<close>), so it is a record of five floats.
\<close>

datatype dim = Sweet | Sour | Bitter | Savory | Aromatic

definition taste_dimensions :: "dim list" where
  "taste_dimensions = [Sweet, Sour, Bitter, Savory, Aromatic]"

record taste =
  sweet :: real
  sour :: real
  bitter :: real
  savory :: real
  aromatic :: real

text \<open>\<^verbatim>\<open>taste_scores[dim]\<close>\<close>

fun score :: "taste \<Rightarrow> dim \<Rightarrow> real" where
  "score t Sweet = sweet t"
| "score t Sour = sour t"
| "score t Bitter = bitter t"
| "score t Savory = savory t"
| "score t Aromatic = aromatic t"

text \<open>\<^verbatim>\<open>taste_scores.items()\<close> and \<^verbatim>\<open>list(taste_scores.values())\<close>, in insertion order.\<close>

definition dict_items :: "taste \<Rightarrow> (dim \<times> real) list" where
  "dict_items t = map (\<lambda>d. (d, score t d)) taste_dimensions"

definition dict_values :: "taste \<Rightarrow> real list" where
  "dict_values t = map (score t) taste_dimensions"

definition zero_taste :: taste where
  "zero_taste = \<lparr>sweet = 0, sour = 0, bitter = 0, savory = 0, aromatic = 0\<rparr>"

text \<open>The spec's invariant on a taste vector: every entry lies in \<open>[0, 1]\<close>.\<close>

definition legal_taste :: "taste \<Rightarrow> bool" where
  "legal_taste t = list_all (\<lambda>s. 0 \<le> s \<and> s \<le> 1) (dict_values t)"

section \<open>Ingredient profiles, ms, cocktails\<close>

text \<open>
  The dictionary returned by \<^verbatim>\<open>MolecularProfiler.get_ingredient_profile\<close>.  The raw molecule
  list (\<^verbatim>\<open>'molecules'\<close>) is read by none of the functions below and is left out.  The keyword and
  group dictionaries map a name to an integer count, in insertion order.
\<close>

record profile =
  p_ingredient :: string
  num_molecules :: nat
  flavor_keywords :: "(string \<times> nat) list"
  functional_groups :: "(string \<times> nat) list"
  avg_molecular_weight :: real
  avg_logp :: real
  taste_scores :: taste
  aromatic_intensity :: real
  volatility_estimate :: real

text \<open>\<^verbatim>\<open>MolecularProfiler._empty_profile\<close>\<close>

definition empty_profile :: profile where
  "empty_profile =
     \<lparr>p_ingredient = [], num_molecules = 0, flavor_keywords = [], functional_groups = [],
      avg_molecular_weight = 0, avg_logp = 0, taste_scores = zero_taste,
      aromatic_intensity = 0, volatility_estimate = 0\<rparr>"

text \<open>A measure dictionary; \<open>m_value\<close> is \<open>None\<close> when the key \<^verbatim>\<open>'value'\<close> is absent.  The keys
  \<^verbatim>\<open>'original'\<close> and \<^verbatim>\<open>'unit'\<close> are display text that no function below reads.\<close>

record measure =
  m_value :: "real option"

record cocktail =
  c_name :: string
  c_category :: "string option"
  c_ingredients :: "string list"
  c_measures :: "measure list"

text \<open>
  The data an optimizer instance works on.  Every \<^verbatim>\<open>CocktailAnalyzer\<close> it owns reads the same
  cocktail file; the analyzer and the modifier own unpatched profilers (\<open>base_profile\<close>), the
  optimizers V2 and V3 patch the fallback matcher of their own profiler (\<open>enhanced_profile\<close>).
  \<^verbatim>\<open>get_ingredient_profile\<close> is memoised and otherwise pure, so it is a function here.
  \<open>float_tie_up\<close> is how the float arithmetic of the run resolves a decimal tie of
  \<^verbatim>\<open>round(x, 1)\<close>.
\<close>

record env =
  cocktails :: "cocktail list"
  base_profile :: "string \<Rightarrow> profile"
  enhanced_profile :: "string \<Rightarrow> profile"
  available_ingredients :: "string list"
  ingredient_plausibility :: "(string \<times> real) list"
  float_tie_up :: "real \<Rightarrow> bool"

text \<open>A returned dictionary is either \<^verbatim>\<open>{'error': message}\<close> or the result proper.\<close>

datatype 'a reply = ErrorDict string | Result 'a

section \<open>CocktailAggregator: \<^verbatim>\<open>CocktailAnalyzer._aggregate_profiles\<close>\<close>

text \<open>\<^verbatim>\<open>m.get('value', 30.0)\<close>\<close>

definition measure_value :: "measure \<Rightarrow> real" where
  "measure_value m = (case m_value m of Some v \<Rightarrow> v | None \<Rightarrow> 30)"

text \<open>The inner loop
  \<^verbatim>\<open>for dim in taste_dimensions: aggregated_taste[dim] += profile['taste_scores'][dim] * weight\<close>.\<close>

definition add_weighted :: "taste \<Rightarrow> taste \<Rightarrow> real \<Rightarrow> taste" where
  "add_weighted accum t weight =
     \<lparr>sweet = sweet accum + sweet t * weight, sour = sour accum + sour t * weight,
      bitter = bitter accum + bitter t * weight, savory = savory accum + savory t * weight,
      aromatic = aromatic accum + aromatic t * weight\<rparr>"

text \<open>
  \<^verbatim>\<open>
  for profile, volume in zip(profiles, volumes):
      weight = volume / total_volume
      for dim in taste_dimensions: ...
  \<close>
\<close>

fun aggregate_taste :: "real \<Rightarrow> taste \<Rightarrow> (profile \<times> real) list \<Rightarrow> py_error + taste" where
  "aggregate_taste tv accum [] = Inr accum"
| "aggregate_taste tv accum ((p, volume) # rest) =
     (case py_truediv volume tv of
        Inl e \<Rightarrow> Inl e
      | Inr weight \<Rightarrow> aggregate_taste tv (add_weighted accum (taste_scores p) weight) rest)"

text \<open>\<^verbatim>\<open>d[key] += x\<close> on a \<^verbatim>\<open>defaultdict(float)\<close>, keeping insertion order.\<close>

fun dict_add :: "(string \<times> real) list \<Rightarrow> string \<Rightarrow> real \<Rightarrow> (string \<times> real) list" where
  "dict_add [] k x = [(k, 0 + x)]"
| "dict_add ((k', v) # d) k x = (if k' = k then (k', v + x) # d else (k', v) # dict_add d k x)"

fun add_counts :: "(string \<times> real) list \<Rightarrow> (string \<times> nat) list \<Rightarrow> real \<Rightarrow> (string \<times> real) list" where
  "add_counts d [] weight = d"
| "add_counts d ((k, count) # rest) weight = add_counts (dict_add d k (real count * weight)) rest weight"

fun aggregate_keywords ::
  "real \<Rightarrow> (string \<times> real) list \<times> (string \<times> real) list \<Rightarrow> (profile \<times> real) list
     \<Rightarrow> py_error + ((string \<times> real) list \<times> (string \<times> real) list)" where
  "aggregate_keywords tv accum [] = Inr accum"
| "aggregate_keywords tv (kws, grps) ((p, volume) # rest) =
     (case py_truediv volume tv of
        Inl e \<Rightarrow> Inl e
      | Inr weight \<Rightarrow>
          aggregate_keywords tv
            (add_counts kws (flavor_keywords p) weight, add_counts grps (functional_groups p) weight)
            rest)"

text \<open>\<^verbatim>\<open>sorted(d.items(), key=lambda x: x[1], reverse=True)[:n]\<close>\<close>

definition top_items :: "nat \<Rightarrow> (string \<times> real) list \<Rightarrow> (string \<times> real) list" where
  "top_items n d = take n (py_sorted snd True d)"

record aggregated =
  agg_taste_scores :: taste
  agg_flavor_keywords :: "(string \<times> real) list"
  agg_functional_groups :: "(string \<times> real) list"
  agg_avg_molecular_weight :: real
  agg_total_volume :: real

text \<open>
  The volumes and the total the weights are taken from:
  \<^verbatim>\<open>
  volumes = [m.get('value', 30.0) for m in ms]
  total_volume = sum(volumes)
  if total_volume == 0:
      volumes = [1.0] * len(profiles)
      total_volume = len(profiles)
  \<close>
\<close>

definition effective_volumes :: "profile list \<Rightarrow> measure list \<Rightarrow> real list \<times> real" where
  "effective_volumes profiles ms =
     (let volumes = map measure_value ms; tv = sum_list volumes in
      if tv = 0 then (replicate (length profiles) 1, real (length profiles))
      else (volumes, tv))"

text \<open>
  The whole function.  \<open>None\<close> is the empty dictionary returned for an empty profile list.
  \<^verbatim>\<open>float(avg_mw) if not np.isnan(avg_mw) else 0.0\<close> is \<open>avg_mw\<close> on the reals.
\<close>

definition aggregate_profiles :: "profile list \<Rightarrow> measure list \<Rightarrow> py_error + aggregated option" where
  "aggregate_profiles profiles ms =
     (if profiles = [] then Inr None
      else
        (let (volumes, tv) = effective_volumes profiles ms;
             pvs = zip profiles volumes
         in case aggregate_taste tv zero_taste pvs of
              Inl e \<Rightarrow> Inl e
            | Inr aggregated_taste \<Rightarrow>
               (case aggregate_keywords tv ([], []) pvs of
                  Inl e \<Rightarrow> Inl e
                | Inr (kws, grps) \<Rightarrow>
                   (case np_average
                           (map avg_molecular_weight (filter (\<lambda>p. num_molecules p > 0) profiles))
                           (map snd (filter (\<lambda>(p, v). num_molecules p > 0) pvs)) of
                      Inl e \<Rightarrow> Inl e
                    | Inr avg_mw \<Rightarrow>
                        Inr (Some \<lparr>agg_taste_scores = aggregated_taste,
                                   agg_flavor_keywords = top_items 20 kws,
                                   agg_functional_groups = top_items 10 grps,
                                   agg_avg_molecular_weight = avg_mw,
                                   agg_total_volume = tv\<rparr>)))))"

text \<open>The weights the two loops use: \<^verbatim>\<open>volume / total_volume\<close> for each zipped pair.\<close>

definition volume_weights :: "profile list \<Rightarrow> measure list \<Rightarrow> (py_error + real) list" where
  "volume_weights profiles ms =
     (let (volumes, tv) = effective_volumes profiles ms
      in map (\<lambda>(p, volume). py_truediv volume tv) (zip profiles volumes))"

section \<open>BalanceScorer: \<^verbatim>\<open>CocktailAnalyzer._compute_overall_balance\<close>\<close>

text \<open>
  \<^verbatim>\<open>
  scores = list(taste_scores.values())
  if not scores or all(s == 0 for s in scores):
      return 0.0
  mean_score = np.mean(scores)
  variance = np.var(scores)
  balance = 1.0 / (1.0 + variance)
  return float(balance)
  \<close>
  On the reals \<open>1 / (1 + variance)\<close> is 1 only for the variance 0.  A float sum
  \<^verbatim>\<open>1.0 + variance\<close> is 1.0 already for a variance below about \<open>1.1e-16\<close>, so the code also
  returns 1.0 for entries that differ very little; nothing below is stated about that
  direction.
\<close>

definition compute_overall_balance :: "taste \<Rightarrow> real" where
  "compute_overall_balance t =
     (let scores = dict_values t in
      if scores = [] \<or> list_all (\<lambda>s. s = 0) scores then 0
      else (let variance = np_var scores in 1 / (1 + variance)))"

section \<open>\<^verbatim>\<open>CocktailAnalyzer._compute_complexity\<close>, \<^verbatim>\<open>_find_cocktail\<close>, \<^verbatim>\<open>analyze_cocktail\<close>\<close>

definition compute_complexity :: "profile list \<Rightarrow> real" where
  "compute_complexity profiles =
     (if profiles = [] then 0
      else
        (let all_keywords = remdups (concat (map (\<lambda>p. map fst (flavor_keywords p)) profiles));
             all_groups = remdups (concat (map (\<lambda>p. map fst (functional_groups p)) profiles));
             keyword_score = min (real (length all_keywords) / 30) 1;
             group_score = min (real (length all_groups) / 10) 1
         in (keyword_score + group_score) / 2))"

fun find_cocktail :: "cocktail list \<Rightarrow> string \<Rightarrow> cocktail option" where
  "find_cocktail [] n = None"
| "find_cocktail (c # cs) n =
     (if str_lower (c_name c) = str_lower n then Some c else find_cocktail cs n)"

record analysis =
  cocktail_name :: string
  a_category :: string
  num_ingredients :: nat
  a_ingredients :: "string list"
  ingredient_profiles :: "profile list"
  aggregated_profile :: aggregated
  balance_scores :: taste
  overall_balance :: real
  complexity_score :: real

definition not_found_message :: "string \<Rightarrow> string" where
  "not_found_message n = ''Cocktail '' @ [CHR 0x27] @ n @ [CHR 0x27] @ '' not found''"

text \<open>
  \<^verbatim>\<open>analyze_cocktail\<close>: an unknown name gives the error dictionary; the empty dictionary of
  \<^verbatim>\<open>_aggregate_profiles\<close> makes \<^verbatim>\<open>aggregated['taste_scores']\<close> raise \<^verbatim>\<open>KeyError\<close>.
\<close>

definition analyze_cocktail :: "env \<Rightarrow> string \<Rightarrow> py_error + analysis reply" where
  "analyze_cocktail env n =
     (case find_cocktail (cocktails env) n of
        None \<Rightarrow> Inr (ErrorDict (not_found_message n))
      | Some c \<Rightarrow>
         (let profiles = map (base_profile env) (c_ingredients c) in
          case aggregate_profiles profiles (c_measures c) of
            Inl e \<Rightarrow> Inl e
          | Inr None \<Rightarrow> Inl KeyError
          | Inr (Some agg) \<Rightarrow>
              Inr (Result
                \<lparr>cocktail_name = c_name c,
                 a_category = (case c_category c of Some g \<Rightarrow> g | None \<Rightarrow> []),
                 num_ingredients = length (c_ingredients c),
                 a_ingredients = c_ingredients c,
                 ingredient_profiles = profiles,
                 aggregated_profile = agg,
                 balance_scores = agg_taste_scores agg,
                 overall_balance = compute_overall_balance (agg_taste_scores agg),
                 complexity_score = compute_complexity profiles\<rparr>)))"

section \<open>Modifier: \<^verbatim>\<open>CocktailModifier.modify_cocktail\<close>\<close>

text \<open>
  A modification dictionary, by its \<^verbatim>\<open>'action'\<close>.  The optional amount is the key
  \<^verbatim>\<open>'amount'\<close>, read with \<^verbatim>\<open>mod.get('amount', default)\<close>; any other action is skipped by the
  \<^verbatim>\<open>if/elif\<close> chain.
\<close>

datatype modification =
    Add string "real option"
  | Remove string
  | Increase string "real option"
  | Decrease string "real option"
  | Substitute string string
  | Other_action

text \<open>\<^verbatim>\<open>xs.index(x)\<close> for an \<open>x\<close> that is in \<open>xs\<close>, and \<^verbatim>\<open>xs.pop(i)\<close>.\<close>

fun index_of :: "'a \<Rightarrow> 'a list \<Rightarrow> nat" where
  "index_of x [] = 0"
| "index_of x (y # ys) = (if x = y then 0 else Suc (index_of x ys))"

definition list_pop :: "nat \<Rightarrow> 'a list \<Rightarrow> py_error + 'a list" where
  "list_pop i xs = (if i < length xs then Inr (take i xs @ drop (Suc i) xs) else Inl IndexError)"

text \<open>\<^verbatim>\<open>modified_measures[idx]['value'] = f(modified_measures[idx]['value'])\<close>\<close>

definition update_value :: "nat \<Rightarrow> (real \<Rightarrow> real) \<Rightarrow> measure list \<Rightarrow> py_error + measure list" where
  "update_value i f ms =
     (if i < length ms then
        (case m_value (ms ! i) of
           None \<Rightarrow> Inl KeyError
         | Some v \<Rightarrow> Inr (ms[i := (ms ! i)\<lparr>m_value := Some (f v)\<rparr>]))
      else Inl IndexError)"

fun apply_modification ::
  "string list \<times> measure list \<Rightarrow> modification \<Rightarrow> py_error + (string list \<times> measure list)" where
  "apply_modification (ings, ms) (Add ingredient amount) =
     Inr (ings @ [ingredient],
          ms @ [\<lparr>m_value = Some (case amount of Some a \<Rightarrow> a | None \<Rightarrow> 30)\<rparr>])"
| "apply_modification (ings, ms) (Remove ingredient) =
     (if ingredient \<in> set ings then
        (let idx = index_of ingredient ings in
         case list_pop idx ms of
           Inl e \<Rightarrow> Inl e
         | Inr ms' \<Rightarrow> Inr (take idx ings @ drop (Suc idx) ings, ms'))
      else Inr (ings, ms))"
| "apply_modification (ings, ms) (Increase ingredient amount) =
     (if ingredient \<in> set ings then
        (case update_value (index_of ingredient ings)
                (\<lambda>v. v + (case amount of Some a \<Rightarrow> a | None \<Rightarrow> 10)) ms of
           Inl e \<Rightarrow> Inl e
         | Inr ms' \<Rightarrow> Inr (ings, ms'))
      else Inr (ings, ms))"
| "apply_modification (ings, ms) (Decrease ingredient amount) =
     (if ingredient \<in> set ings then
        (case update_value (index_of ingredient ings)
                (\<lambda>v. max 0 (v - (case amount of Some a \<Rightarrow> a | None \<Rightarrow> 10))) ms of
           Inl e \<Rightarrow> Inl e
         | Inr ms' \<Rightarrow> Inr (ings, ms'))
      else Inr (ings, ms))"
| "apply_modification (ings, ms) (Substitute ingredient substitute_with) =
     (if ingredient \<in> set ings then Inr (ings[index_of ingredient ings := substitute_with], ms)
      else Inr (ings, ms))"
| "apply_modification (ings, ms) Other_action = Inr (ings, ms)"

text \<open>\<^verbatim>\<open>for mod in modifications: ...\<close>\<close>

fun apply_modifications ::
  "string list \<times> measure list \<Rightarrow> modification list \<Rightarrow> py_error + (string list \<times> measure list)" where
  "apply_modifications st [] = Inr st"
| "apply_modifications st (m # rest) =
     (case apply_modification st m of Inl e \<Rightarrow> Inl e | Inr st' \<Rightarrow> apply_modifications st' rest)"

text \<open>
  The comparison dictionary.  Of \<^verbatim>\<open>_analyze_impact\<close> the numbers are kept (the change of each
  dimension, the change of the balance and whether it improved); the direction words and the
  formatted summary are text derived from them.
\<close>

record cocktail_state =
  st_ingredients :: "string list"
  st_taste_scores :: taste
  st_overall_balance :: real
  st_complexity :: real

record impact =
  taste_dimension_changes :: taste
  balance_change :: real
  balance_improved :: bool

record modification_result =
  original :: cocktail_state
  modified :: cocktail_state
  modifications_applied :: "modification list"
  impact_analysis :: impact

definition analyze_impact :: "taste \<Rightarrow> taste \<Rightarrow> real \<Rightarrow> real \<Rightarrow> impact" where
  "analyze_impact original_scores modified_scores original_balance modified_balance =
     \<lparr>taste_dimension_changes =
        \<lparr>sweet = sweet modified_scores - sweet original_scores,
         sour = sour modified_scores - sour original_scores,
         bitter = bitter modified_scores - bitter original_scores,
         savory = savory modified_scores - savory original_scores,
         aromatic = aromatic modified_scores - aromatic original_scores\<rparr>,
      balance_change = modified_balance - original_balance,
      balance_improved = (modified_balance - original_balance > 0)\<rparr>"

text \<open>
  \<^verbatim>\<open>modify_cocktail\<close>: the error dictionary of the analysis is returned as it is.  The measures
  are read from the cocktail again; the modified profile is recomputed from scratch, and an
  emptied ingredient list makes \<^verbatim>\<open>modified_aggregated['taste_scores']\<close> raise.
\<close>

definition modify_cocktail ::
  "env \<Rightarrow> string \<Rightarrow> modification list \<Rightarrow> py_error + modification_result reply" where
  "modify_cocktail env n modifications =
     (case analyze_cocktail env n of
        Inl e \<Rightarrow> Inl e
      | Inr (ErrorDict msg) \<Rightarrow> Inr (ErrorDict msg)
      | Inr (Result original_analysis) \<Rightarrow>
         (case find_cocktail (cocktails env) n of
            None \<Rightarrow> Inl TypeError
          | Some c \<Rightarrow>
             (case apply_modifications (a_ingredients original_analysis, c_measures c) modifications of
                Inl e \<Rightarrow> Inl e
              | Inr (modified_ingredients, modified_measures) \<Rightarrow>
                 (let modified_profiles = map (base_profile env) modified_ingredients in
                  case aggregate_profiles modified_profiles modified_measures of
                    Inl e \<Rightarrow> Inl e
                  | Inr None \<Rightarrow> Inl KeyError
                  | Inr (Some modified_aggregated) \<Rightarrow>
                     (let modified_balance = compute_overall_balance (agg_taste_scores modified_aggregated);
                          modified_complexity = compute_complexity modified_profiles
                      in Inr (Result
                           \<lparr>original =
                              \<lparr>st_ingredients = a_ingredients original_analysis,
                               st_taste_scores = balance_scores original_analysis,
                               st_overall_balance = overall_balance original_analysis,
                               st_complexity = complexity_score original_analysis\<rparr>,
                            modified =
                              \<lparr>st_ingredients = modified_ingredients,
                               st_taste_scores = agg_taste_scores modified_aggregated,
                               st_overall_balance = modified_balance,
                               st_complexity = modified_complexity\<rparr>,
                            modifications_applied = modifications,
                            impact_analysis =
                              analyze_impact (balance_scores original_analysis)
                                (agg_taste_scores modified_aggregated)
                                (overall_balance original_analysis) modified_balance\<rparr>))))))"

section \<open>ImbalanceDetector: \<^verbatim>\<open>_identify_imbalances\<close>\<close>

datatype issue_type = TooHigh | TooLow

datatype priority = High | Medium

record imbalance =
  i_dimension :: dim
  i_type :: issue_type
  i_priority :: priority
  current_value :: "real option"

datatype direction = DirIncrease | DirDecrease

text \<open>The dictionary \<^verbatim>\<open>target_map\<close>, the same in all three optimizers.\<close>

definition target_map :: "(string \<times> (dim \<times> direction) option) list" where
  "target_map =
     [(''sweeter'', Some (Sweet, DirIncrease)),
      (''more_sour'', Some (Sour, DirIncrease)),
      (''less_bitter'', Some (Bitter, DirDecrease)),
      (''more_aromatic'', Some (Aromatic, DirIncrease)),
      (''balanced'', None)]"

text \<open>
  \<^verbatim>\<open>
  imbalances = []
  if target:
      if target in target_map and target_map[target]:
          dimension, direction = target_map[target]
          imbalances.append({'dimension': dimension,
                             'type': 'too_low' if direction == 'increase' else 'too_high',
                             'priority': 'high'})
  \<close>
  \<open>None\<close> and the empty string are falsy.
\<close>

definition forced_imbalances :: "string option \<Rightarrow> imbalance list" where
  "forced_imbalances target =
     (case target of
        None \<Rightarrow> []
      | Some t \<Rightarrow>
         (if t = [] then []
          else (case map_of target_map t of
                  Some (Some (dimension, direction)) \<Rightarrow>
                    [\<lparr>i_dimension = dimension,
                      i_type = (if direction = DirIncrease then TooLow else TooHigh),
                      i_priority = High, current_value = None\<rparr>]
                | _ \<Rightarrow> [])))"

text \<open>
  The loop of \<^verbatim>\<open>FlavorOptimizer._identify_imbalances\<close> (V1):
  \<^verbatim>\<open>
  for dimension, score in taste_scores.items():
      if score > mean_score + std_score: ... 'too_high', 'medium'
      elif score < mean_score - std_score and score < 0.3: ... 'too_low', 'medium'
  \<close>
\<close>

fun auto_detect :: "real \<Rightarrow> real \<Rightarrow> (dim \<times> real) list \<Rightarrow> imbalance list" where
  "auto_detect mean_score std_score [] = []"
| "auto_detect mean_score std_score ((dimension, s) # rest) =
     (if s > mean_score + std_score then
        [\<lparr>i_dimension = dimension, i_type = TooHigh, i_priority = Medium, current_value = Some s\<rparr>]
      else if s < mean_score - std_score \<and> s < 0.3 then
        [\<lparr>i_dimension = dimension, i_type = TooLow, i_priority = Medium, current_value = Some s\<rparr>]
      else [])
     @ auto_detect mean_score std_score rest"

definition identify_imbalances :: "taste \<Rightarrow> string option \<Rightarrow> imbalance list" where
  "identify_imbalances t target =
     (let imbalances = forced_imbalances target;
          mean_score = np_mean (dict_values t);
          std_score = np_std (dict_values t)
      in imbalances @ auto_detect mean_score std_score (dict_items t))"

text \<open>
  The loop of \<^verbatim>\<open>FlavorOptimizerV2._identify_imbalances\<close>, with the stricter threshold
  \<^verbatim>\<open>std_score * 0.7\<close>.  The method of \<^verbatim>\<open>FlavorOptimizerV3\<close> has the same text.
\<close>

fun auto_detect_v2 :: "real \<Rightarrow> real \<Rightarrow> (dim \<times> real) list \<Rightarrow> imbalance list" where
  "auto_detect_v2 mean_score std_score [] = []"
| "auto_detect_v2 mean_score std_score ((dimension, s) # rest) =
     (if s > mean_score + std_score * 0.7 then
        [\<lparr>i_dimension = dimension, i_type = TooHigh, i_priority = Medium, current_value = Some s\<rparr>]
      else if s < mean_score - std_score * 0.7 \<and> s < 0.3 then
        [\<lparr>i_dimension = dimension, i_type = TooLow, i_priority = Medium, current_value = Some s\<rparr>]
      else [])
     @ auto_detect_v2 mean_score std_score rest"

definition identify_imbalances_v2 :: "taste \<Rightarrow> string option \<Rightarrow> imbalance list" where
  "identify_imbalances_v2 t target =
     (let imbalances = forced_imbalances target;
          mean_score = np_mean (dict_values t);
          std_score = np_std (dict_values t)
      in imbalances @ auto_detect_v2 mean_score std_score (dict_items t))"

definition identify_imbalances_v3 :: "taste \<Rightarrow> string option \<Rightarrow> imbalance list" where
  "identify_imbalances_v3 = identify_imbalances_v2"

section \<open>CandidateGenerator: \<^verbatim>\<open>_find_corrective_ingredients\<close>\<close>

text \<open>
  A suggestion dictionary.  Its \<^verbatim>\<open>'reason'\<close> and \<^verbatim>\<open>'predicted_impact'\<close> are formatted display
  text and are left out.
\<close>

record suggestion =
  s_action :: string
  s_ingredient :: string
  s_amount :: real
  ingredient_taste_profile :: taste

text \<open>The dictionary \<^verbatim>\<open>contrasting\<close>, the same in all three optimizers.\<close>

fun contrasting :: "dim \<Rightarrow> dim" where
  "contrasting Sweet = Sour"
| "contrasting Sour = Sweet"
| "contrasting Bitter = Sweet"
| "contrasting Aromatic = Sweet"
| "contrasting Savory = Sweet"

text \<open>The dictionaries \<^verbatim>\<open>dimension_ingredients\<close> of V1, V2 and V3.\<close>

fun dimension_ingredients :: "dim \<Rightarrow> string list" where
  "dimension_ingredients Sweet =
     [''simple syrup'', ''sugar'', ''honey'', ''agave syrup'', ''grenadine'', ''maple syrup'']"
| "dimension_ingredients Sour =
     [''lemon juice'', ''lime juice'', ''grapefruit juice'', ''vinegar'', ''citric acid'']"
| "dimension_ingredients Bitter =
     [''angostura bitters'', ''campari'', ''aperol'', ''coffee'', ''tonic water'']"
| "dimension_ingredients Aromatic =
     [''mint'', ''basil'', ''rosemary'', ''thyme'', ''bitters'', ''orange bitters'']"
| "dimension_ingredients Savory =
     [''olive brine'', ''celery'', ''tomato juice'', ''worcestershire sauce'']"

fun dimension_ingredients_v2 :: "dim \<Rightarrow> string list" where
  "dimension_ingredients_v2 Sweet = [''simple syrup'', ''honey'', ''agave syrup'', ''sugar'']"
| "dimension_ingredients_v2 Sour = [''lemon juice'', ''lime juice'', ''grapefruit juice'']"
| "dimension_ingredients_v2 Bitter = [''angostura bitters'', ''campari'', ''coffee'']"
| "dimension_ingredients_v2 Aromatic = [''mint'', ''basil'', ''bitters'']"
| "dimension_ingredients_v2 Savory = [''celery'', ''tomato juice'']"

fun dimension_ingredients_v3 :: "dim \<Rightarrow> string list" where
  "dimension_ingredients_v3 Sweet =
     [''simple syrup'', ''honey'', ''agave syrup'', ''sugar'', ''maple syrup'']"
| "dimension_ingredients_v3 Sour = [''lemon juice'', ''lime juice'', ''grapefruit juice'']"
| "dimension_ingredients_v3 Bitter = [''angostura bitters'', ''campari'', ''aperol'', ''coffee'']"
| "dimension_ingredients_v3 Aromatic = [''mint'', ''basil'', ''bitters'', ''orange bitters'']"
| "dimension_ingredients_v3 Savory = [''celery'', ''tomato juice'']"

text \<open>
  \<^verbatim>\<open>FlavorOptimizer._find_corrective_ingredients\<close> (V1).  Candidates must be in
  \<^verbatim>\<open>self.available_ingredients\<close> and not yet in the cocktail; those without molecular data are
  skipped; the rest is sorted by the candidate's own score in the dimension, descending for
  \<^verbatim>\<open>'too_low'\<close>, and the first five are kept.
\<close>

definition find_corrective_ingredients ::
  "env \<Rightarrow> dim \<Rightarrow> issue_type \<Rightarrow> taste \<Rightarrow> string list \<Rightarrow> suggestion list" where
  "find_corrective_ingredients env dimension issue current_scores existing_ingredients =
     (let candidate_ingredients =
            (if issue = TooLow then dimension_ingredients dimension
             else dimension_ingredients (contrasting dimension));
          available_candidates =
            filter (\<lambda>ing. ing \<in> set (available_ingredients env)
                          \<and> str_lower ing \<notin> set (map str_lower existing_ingredients))
                   candidate_ingredients;
          suggestions =
            map (\<lambda>ing. \<lparr>s_action = ''add'', s_ingredient = ing, s_amount = 15,
                         ingredient_taste_profile = taste_scores (base_profile env ing)\<rparr>)
                (filter (\<lambda>ing. num_molecules (base_profile env ing) \<noteq> 0) available_candidates)
      in take 5 (py_sorted (\<lambda>x. score (ingredient_taste_profile x) dimension) (issue = TooLow)
                   suggestions))"

text \<open>
  \<^verbatim>\<open>_find_corrective_ingredients\<close> of V2 and V3: the same text up to the ingredient table,
  which is the first argument here.  It asks the optimizer's own, patched profiler.
\<close>

definition find_corrective_with ::
  "(dim \<Rightarrow> string list) \<Rightarrow> env \<Rightarrow> dim \<Rightarrow> issue_type \<Rightarrow> taste \<Rightarrow> string list \<Rightarrow> suggestion list" where
  "find_corrective_with table env dimension issue current_scores existing_ingredients =
     (let candidate_ingredients =
            (if issue = TooLow then table dimension else table (contrasting dimension));
          suggestions =
            map (\<lambda>ing. \<lparr>s_action = ''add'', s_ingredient = ing, s_amount = 15,
                         ingredient_taste_profile = taste_scores (enhanced_profile env ing)\<rparr>)
                (filter (\<lambda>ing. str_lower ing \<notin> set (map str_lower existing_ingredients)
                               \<and> num_molecules (enhanced_profile env ing) > 0)
                        candidate_ingredients)
      in take 5 (py_sorted (\<lambda>x. score (ingredient_taste_profile x) dimension) (issue = TooLow)
                   suggestions))"

definition find_corrective_ingredients_v2 ::
  "env \<Rightarrow> dim \<Rightarrow> issue_type \<Rightarrow> taste \<Rightarrow> string list \<Rightarrow> suggestion list" where
  "find_corrective_ingredients_v2 = find_corrective_with dimension_ingredients_v2"

definition find_corrective_ingredients_v3 ::
  "env \<Rightarrow> dim \<Rightarrow> issue_type \<Rightarrow> taste \<Rightarrow> string list \<Rightarrow> suggestion list" where
  "find_corrective_ingredients_v3 = find_corrective_with dimension_ingredients_v3"

section \<open>Adaptive amount and the threshold gate (V2, V3)\<close>

text \<open>
  \<^verbatim>\<open>_calculate_adaptive_amount\<close>, the same text in V2 and V3:
  \<^verbatim>\<open>
  base_percentage = 0.12
  if current_balance >= 0.98: balance_factor = 0.0
  elif current_balance >= 0.95: balance_factor = 0.25
  elif current_balance >= 0.90: balance_factor = 0.5
  elif current_balance >= 0.80: balance_factor = 0.75
  else: balance_factor = 1.0
  severity_factor = min(imbalance_magnitude / 0.3, 2.0)
  amount = total_volume * base_percentage * balance_factor * severity_factor
  return round(max(5.0, min(amount, 30.0)), 1)
  \<close>
\<close>

definition balance_factor :: "real \<Rightarrow> real" where
  "balance_factor current_balance =
     (if current_balance \<ge> 0.98 then 0
      else if current_balance \<ge> 0.95 then 0.25
      else if current_balance \<ge> 0.90 then 0.5
      else if current_balance \<ge> 0.80 then 0.75
      else 1)"

definition severity_factor :: "real \<Rightarrow> real" where
  "severity_factor imbalance_magnitude = min (imbalance_magnitude / 0.3) 2"

definition raw_amount :: "real \<Rightarrow> real \<Rightarrow> real \<Rightarrow> real" where
  "raw_amount current_balance imbalance_magnitude total_volume =
     total_volume * 0.12 * balance_factor current_balance * severity_factor imbalance_magnitude"

definition calculate_adaptive_amount :: "env \<Rightarrow> real \<Rightarrow> real \<Rightarrow> real \<Rightarrow> real" where
  "calculate_adaptive_amount env current_balance imbalance_magnitude total_volume =
     (let amount = raw_amount current_balance imbalance_magnitude total_volume
      in py_round1 (float_tie_up env) (max 5 (min amount 30)))"

text \<open>
  \<^verbatim>\<open>max(abs(score - mean) for score in taste_scores.values())\<close> with
  \<^verbatim>\<open>mean = np.mean(list(taste_scores.values()))\<close>; the five values are never an empty sequence.
\<close>

definition max_deviation :: "taste \<Rightarrow> real" where
  "max_deviation t = Max (set (map (\<lambda>s. \<bar>s - np_mean (dict_values t)\<bar>) (dict_values t)))"

text \<open>
  \<^verbatim>\<open>should_recommend_changes\<close> (V2) and \<^verbatim>\<open>_should_recommend_changes\<close> (V3), the same text:
  \<^verbatim>\<open>
  if balance_score >= 0.98:
      return False, "Cocktail is already excellently balanced! No changes recommended."
  if balance_score >= 0.95:
      ...
      if max_deviation < 0.25:
          return False, "Cocktail is very well balanced. Only minor refinements possible."
  if balance_score >= 0.85:
      return True, "Good cocktail with room for refinement"
  return True, "Cocktail has imbalances that could be improved"
  \<close>
\<close>

definition should_recommend_changes :: "real \<Rightarrow> taste \<Rightarrow> bool \<times> string" where
  "should_recommend_changes balance_score t =
     (if balance_score \<ge> 0.98 then
        (False, ''Cocktail is already excellently balanced! No changes recommended.'')
      else if balance_score \<ge> 0.95 \<and> max_deviation t < 0.25 then
        (False, ''Cocktail is very well balanced. Only minor refinements possible.'')
      else if balance_score \<ge> 0.85 then (True, ''Good cocktail with room for refinement'')
      else (True, ''Cocktail has imbalances that could be improved''))"

section \<open>\<^verbatim>\<open>recommend_improvements\<close>\<close>

text \<open>A recommendation: the issue (\<^verbatim>\<open>"<dimension> is too high"\<close>) and the suggestion.\<close>

record recommendation =
  issue_dimension :: dim
  issue_kind :: issue_type
  rec_suggestion :: suggestion

record recommendations =
  r_cocktail :: string
  r_current_balance :: taste
  overall_balance_score :: real
  r_message :: "string option"
  identified_issues :: "imbalance list"
  recommended :: "recommendation list"

text \<open>
  \<^verbatim>\<open>FlavorOptimizer.recommend_improvements\<close> (V1): no threshold, the fixed amount of the
  suggestion, three suggestions for each imbalance.
\<close>

definition recommend_improvements ::
  "env \<Rightarrow> string \<Rightarrow> string option \<Rightarrow> py_error + recommendations reply" where
  "recommend_improvements env n target_balance =
     (case analyze_cocktail env n of
        Inl e \<Rightarrow> Inl e
      | Inr (ErrorDict msg) \<Rightarrow> Inr (ErrorDict msg)
      | Inr (Result a) \<Rightarrow>
         (let current_scores = balance_scores a;
              imbalances = identify_imbalances current_scores target_balance
          in Inr (Result
               \<lparr>r_cocktail = n, r_current_balance = current_scores,
                overall_balance_score = overall_balance a, r_message = None,
                identified_issues = imbalances,
                recommended =
                  concat (map (\<lambda>imbalance.
                      map (\<lambda>s. \<lparr>issue_dimension = i_dimension imbalance,
                                 issue_kind = i_type imbalance, rec_suggestion = s\<rparr>)
                          (take 3 (find_corrective_ingredients env (i_dimension imbalance)
                                     (i_type imbalance) current_scores (a_ingredients a))))
                    imbalances)\<rparr>)))"

text \<open>
  \<^verbatim>\<open>recommend_improvements\<close> of V2 and V3: the same text up to the number of suggestions kept
  for each imbalance (\<^verbatim>\<open>suggestions[:3]\<close> in V2, \<^verbatim>\<open>suggestions[:5]\<close> in V3) and the table of
  \<^verbatim>\<open>_find_corrective_ingredients\<close>.
  \<^verbatim>\<open>
  should_rec, message = self.should_recommend_changes(current_balance, current_scores)
  if not should_rec:
      return {..., 'message': message, 'identified_issues': [], 'recommendations': []}
  imbalances = self._identify_imbalances(current_scores, target_balance)
  for imbalance in imbalances:
      mean = np.mean(list(current_scores.values()))
      imbalance_mag = abs(current_scores[dimension] - mean)
      suggestions = self._find_corrective_ingredients(...)
      for suggestion in suggestions[:3]:
          adaptive_amount = self._calculate_adaptive_amount(current_balance, imbalance_mag, total_volume)
          suggestion['amount'] = adaptive_amount
          recommendations.append({'issue': ..., 'recommendation': suggestion})
  \<close>
\<close>

definition recommend_with ::
  "nat \<Rightarrow> (dim \<Rightarrow> string list) \<Rightarrow> env \<Rightarrow> string \<Rightarrow> string option
     \<Rightarrow> py_error + recommendations reply" where
  "recommend_with keep table env n target_balance =
     (case analyze_cocktail env n of
        Inl e \<Rightarrow> Inl e
      | Inr (ErrorDict msg) \<Rightarrow> Inr (ErrorDict msg)
      | Inr (Result a) \<Rightarrow>
         (let current_scores = balance_scores a;
              current_bal = overall_balance a;
              total_volume = agg_total_volume (aggregated_profile a);
              (should_rec, message) = should_recommend_changes current_bal current_scores
          in if \<not> should_rec then
               Inr (Result
                 \<lparr>r_cocktail = n, r_current_balance = current_scores,
                  overall_balance_score = current_bal, r_message = Some message,
                  identified_issues = [], recommended = []\<rparr>)
             else
               (let imbalances = identify_imbalances_v2 current_scores target_balance
                in Inr (Result
                     \<lparr>r_cocktail = n, r_current_balance = current_scores,
                      overall_balance_score = current_bal, r_message = None,
                      identified_issues = imbalances,
                      recommended =
                        concat (map (\<lambda>imbalance.
                            (let dimension = i_dimension imbalance;
                                 mean = np_mean (dict_values current_scores);
                                 imbalance_mag = \<bar>score current_scores dimension - mean\<bar>;
                                 suggestions =
                                   find_corrective_with table env dimension (i_type imbalance)
                                     current_scores (a_ingredients a)
                             in map (\<lambda>s.
                                  (let adaptive_amount =
                                         calculate_adaptive_amount env current_bal imbalance_mag total_volume
                                   in \<lparr>issue_dimension = dimension, issue_kind = i_type imbalance,
                                       rec_suggestion = s\<lparr>s_amount := adaptive_amount\<rparr>\<rparr>))
                                  (take keep suggestions)))
                          imbalances)\<rparr>))))"

definition recommend_improvements_v2 ::
  "env \<Rightarrow> string \<Rightarrow> string option \<Rightarrow> py_error + recommendations reply" where
  "recommend_improvements_v2 = recommend_with 3 dimension_ingredients_v2"

definition recommend_improvements_v3 ::
  "env \<Rightarrow> string \<Rightarrow> string option \<Rightarrow> py_error + recommendations reply" where
  "recommend_improvements_v3 = recommend_with 5 dimension_ingredients_v3"

section \<open>MultiCandidateSelector: \<^verbatim>\<open>FlavorOptimizerV3.find_best_modification\<close>\<close>

text \<open>The slice \<^verbatim>\<open>xs[:k]\<close> for a Python integer \<open>k\<close>; a negative \<open>k\<close> counts from the end.\<close>

definition py_slice_to :: "int \<Rightarrow> 'a list \<Rightarrow> 'a list" where
  "py_slice_to k xs = (if k \<ge> 0 then take (nat k) xs else take (length xs - nat (- k)) xs)"

text \<open>A tested candidate; its \<^verbatim>\<open>'reason'\<close> text is left out.\<close>

record candidate =
  rank :: nat
  cand_modification :: "modification list"
  cand_ingredient :: string
  cand_amount :: real
  cand_original_balance :: real
  cand_new_balance :: real
  improvement :: real

text \<open>
  \<^verbatim>\<open>
  for i, rec in enumerate(all_recs['recommendations'][:max_candidates]):
      modification = [{'action': 'add', 'ingredient': ..., 'amount': ...}]
      try:
          result = self.modifier.modify_cocktail(cocktail_name, modification)
          if 'error' not in result:
              new_balance = result['modified']['overall_balance']
              improvement = new_balance - original_balance
              candidates.append({'rank': i + 1, ...})
      except Exception as e:
          continue
  \<close>
\<close>

fun test_candidates :: "env \<Rightarrow> string \<Rightarrow> real \<Rightarrow> (nat \<times> recommendation) list \<Rightarrow> candidate list" where
  "test_candidates env n original_balance [] = []"
| "test_candidates env n original_balance ((i, r) # rest) =
     (let modification =
            [Add (s_ingredient (rec_suggestion r)) (Some (s_amount (rec_suggestion r)))]
      in case modify_cocktail env n modification of
           Inr (Result res) \<Rightarrow>
             (let new_balance = st_overall_balance (modified res) in
              \<lparr>rank = i + 1, cand_modification = modification,
               cand_ingredient = s_ingredient (rec_suggestion r),
               cand_amount = s_amount (rec_suggestion r),
               cand_original_balance = original_balance,
               cand_new_balance = new_balance,
               improvement = new_balance - original_balance\<rparr>
              # test_candidates env n original_balance rest)
         | _ \<Rightarrow> test_candidates env n original_balance rest)"

record selection =
  sel_cocktail :: string
  sel_original_balance :: real
  best_modification :: candidate
  all_candidates :: "candidate list"
  tested_count :: nat

text \<open>The dictionary with \<^verbatim>\<open>'best_modification': None\<close> and a message, or the selection.\<close>

datatype outcome = No_best string | Best selection

definition find_best_modification_v3 :: "env \<Rightarrow> string \<Rightarrow> int \<Rightarrow> py_error + outcome reply" where
  "find_best_modification_v3 env n max_candidates =
     (case analyze_cocktail env n of
        Inl e \<Rightarrow> Inl e
      | Inr (ErrorDict msg) \<Rightarrow> Inr (ErrorDict msg)
      | Inr (Result orig) \<Rightarrow>
         (case recommend_improvements_v3 env n None of
            Inl e \<Rightarrow> Inl e
          | Inr (ErrorDict msg) \<Rightarrow> Inr (Result (No_best ''No recommendations available''))
          | Inr (Result all_recs) \<Rightarrow>
             (if recommended all_recs = [] then
                Inr (Result (No_best (case r_message all_recs of
                                        Some msg \<Rightarrow> msg
                                      | None \<Rightarrow> ''No recommendations available'')))
              else
                (let tested = py_slice_to max_candidates (recommended all_recs);
                     candidates =
                       test_candidates env n (overall_balance orig)
                         (zip [0..<length tested] tested)
                 in if candidates = [] then
                      Inr (Result (No_best ''Could not test any modifications''))
                    else
                      (case py_max_key improvement candidates of
                         Inl e \<Rightarrow> Inl e
                       | Inr best \<Rightarrow>
                           Inr (Result (Best
                             \<lparr>sel_cocktail = n, sel_original_balance = overall_balance orig,
                              best_modification = best, all_candidates = candidates,
                              tested_count = length candidates\<rparr>)))))))"

section \<open>Plausibility ranking: \<^verbatim>\<open>FlavorOptimizerV4\<close>\<close>

text \<open>
  \<^verbatim>\<open>get_plausibility_score\<close>: 0.5 without data; the exact entry of the lower-cased, stripped
  name; else the first entry whose key contains the name or is contained in it; else 0.5.
\<close>

fun fuzzy_plausibility :: "string \<Rightarrow> (string \<times> real) list \<Rightarrow> real" where
  "fuzzy_plausibility ingredient_lower [] = 0.5"
| "fuzzy_plausibility ingredient_lower ((known_ing, s) # rest) =
     (if str_in known_ing ingredient_lower \<or> str_in ingredient_lower known_ing then s
      else fuzzy_plausibility ingredient_lower rest)"

definition get_plausibility_score :: "env \<Rightarrow> string \<Rightarrow> real" where
  "get_plausibility_score env ingredient =
     (if ingredient_plausibility env = [] then 0.5
      else
        (let ingredient_lower = str_strip (str_lower ingredient) in
         case map_of (ingredient_plausibility env) ingredient_lower of
           Some s \<Rightarrow> s
         | None \<Rightarrow> fuzzy_plausibility ingredient_lower (ingredient_plausibility env)))"

text \<open>
  The candidate dictionaries of V4 and what \<^verbatim>\<open>rank_recommendations_with_plausibility\<close> adds
  to each of them:
  \<^verbatim>\<open>
  for candidate in candidates:
      plausibility = self.get_plausibility_score(candidate['ingredient'])
      candidate['plausibility'] = plausibility
      candidate['combined_score'] = candidate['improvement'] * plausibility
  ranked = sorted(candidates, key=lambda x: x['combined_score'], reverse=True)
  return ranked
  \<close>
\<close>

record v4_candidate =
  v4_ingredient :: string
  v4_amount :: real
  v4_improvement :: real
  v4_original_balance :: real
  v4_new_balance :: real

record scored_candidate = v4_candidate +
  plausibility :: real
  combined_score :: real

definition add_plausibility :: "env \<Rightarrow> v4_candidate \<Rightarrow> scored_candidate" where
  "add_plausibility env c =
     (let p = get_plausibility_score env (v4_ingredient c) in
      \<lparr>v4_ingredient = v4_ingredient c, v4_amount = v4_amount c,
       v4_improvement = v4_improvement c, v4_original_balance = v4_original_balance c,
       v4_new_balance = v4_new_balance c,
       plausibility = p, combined_score = v4_improvement c * p\<rparr>)"

definition rank_recommendations_with_plausibility ::
  "env \<Rightarrow> v4_candidate list \<Rightarrow> scored_candidate list" where
  "rank_recommendations_with_plausibility env candidates =
     py_sorted combined_score True (map (add_plausibility env) candidates)"

text \<open>
  \<^verbatim>\<open>FlavorOptimizerV4.find_best_modification\<close> starts with
  \<^verbatim>\<open>analysis = self.analyzer.analyze_cocktail_by_name(cocktail_name)\<close>, and
  \<^verbatim>\<open>self.analyzer\<close> is the \<^verbatim>\<open>CocktailAnalyzer\<close> that \<^verbatim>\<open>FlavorOptimizerV3.__init__\<close> creates.
  Below are the attributes a \<^verbatim>\<open>CocktailAnalyzer\<close> has (its methods and the two fields set by
  \<^verbatim>\<open>__init__\<close>); looking up any other name raises \<^verbatim>\<open>AttributeError\<close>, so the statements after
  the call, among them \<^verbatim>\<open>if not analysis: return {'error': 'Cocktail not found'}\<close>, are not
  reached.  The second branch of the definition stands for them and is never taken.
\<close>

definition analyzer_attributes :: "string list" where
  "analyzer_attributes =
     [''profiler'', ''cocktails'', ''analyze_cocktail'', ''_find_cocktail'',
      ''_aggregate_profiles'', ''_compute_overall_balance'', ''_compute_complexity'']"

definition analyzer_getattr :: "string \<Rightarrow> py_error + string" where
  "analyzer_getattr a = (if a \<in> set analyzer_attributes then Inr a else Inl AttributeError)"

definition find_best_modification_v4 ::
  "env \<Rightarrow> string \<Rightarrow> int \<Rightarrow> py_error + scored_candidate reply" where
  "find_best_modification_v4 env n max_candidates =
     (case analyzer_getattr ''analyze_cocktail_by_name'' of
        Inl e \<Rightarrow> Inl e
      | Inr method \<Rightarrow> Inr (ErrorDict ''Cocktail not found''))"

section \<open>Notions used in the statements\<close>

text \<open>
  A dimension is flagged by the statistical detector with a given kind when the returned list
  has an entry of priority \<^verbatim>\<open>'medium'\<close> for it; the forced entry of an explicit target has
  priority \<^verbatim>\<open>'high'\<close>.
\<close>

definition flagged :: "imbalance list \<Rightarrow> dim \<Rightarrow> issue_type \<Rightarrow> bool" where
  "flagged imbalances d k =
     (\<exists>i \<in> set imbalances. i_dimension i = d \<and> i_type i = k \<and> i_priority i = Medium)"

text \<open>
  The item a selector should return: the first item of the list whose key is at least the key
  of every item, that is, a maximal one and among several maximal ones the earliest.
\<close>

definition first_maximal :: "('a \<Rightarrow> real) \<Rightarrow> 'a list \<Rightarrow> 'a option" where
  "first_maximal f xs = List.find (\<lambda>x. list_all (\<lambda>y. f y \<le> f x) xs) xs"

text \<open>The result dictionary of a call that neither raised nor returned an error dictionary.\<close>

definition the_result :: "py_error + 'a reply \<Rightarrow> 'a option" where
  "the_result x = (case x of Inr (Result r) \<Rightarrow> Some r | _ \<Rightarrow> None)"

definition suggested_amounts :: "py_error + recommendations reply \<Rightarrow> real list" where
  "suggested_amounts x =
     (case the_result x of
        Some r \<Rightarrow> map (\<lambda>rc. s_amount (rec_suggestion rc)) (recommended r)
      | None \<Rightarrow> [])"

text \<open>For each recommendation: the dimension of its issue, the ingredient and the amount.\<close>

definition suggested_items :: "py_error + recommendations reply \<Rightarrow> (dim \<times> string \<times> real) list" where
  "suggested_items x =
     (case the_result x of
        Some r \<Rightarrow>
          map (\<lambda>rc. (issue_dimension rc, s_ingredient (rec_suggestion rc), s_amount (rec_suggestion rc)))
              (recommended r)
      | None \<Rightarrow> [])"

text \<open>What the recommender reads from an analysis: balance, taste scores and total volume.\<close>

definition analysis_summary :: "py_error + analysis reply \<Rightarrow> (real \<times> taste \<times> real) option" where
  "analysis_summary x =
     (case the_result x of
        Some a \<Rightarrow> Some (overall_balance a, balance_scores a, agg_total_volume (aggregated_profile a))
      | None \<Rightarrow> None)"

text \<open>The clamp of the specification, without the rounding.\<close>

definition clamped_amount :: "real \<Rightarrow> real \<Rightarrow> real \<Rightarrow> real" where
  "clamped_amount current_balance imbalance_magnitude total_volume =
     max 5 (min (raw_amount current_balance imbalance_magnitude total_volume) 30)"

section \<open>A small data set for running the model\<close>

definition with_taste :: "string \<Rightarrow> taste \<Rightarrow> profile" where
  "with_taste ing t =
     \<lparr>p_ingredient = ing, num_molecules = 2,
      flavor_keywords = [(''herbal'', 2), (''sweet'', 1)],
      functional_groups = [(''alcohol'', 1)],
      avg_molecular_weight = 150, avg_logp = 1, taste_scores = t,
      aromatic_intensity = 0, volatility_estimate = 0.8\<rparr>"

definition example_profile :: "string \<Rightarrow> profile" where
  "example_profile ing =
     (if ing = ''even mix'' then
        with_taste ing \<lparr>sweet = 0.5, sour = 0.5, bitter = 0.5, savory = 0.5, aromatic = 0.5\<rparr>
      else if ing = ''mild mix'' then
        with_taste ing \<lparr>sweet = 0.3, sour = 0.3, bitter = 0, savory = 0, aromatic = 0\<rparr>
      else if ing = ''amaro'' then
        with_taste ing \<lparr>sweet = 0, sour = 0, bitter = 1, savory = 0, aromatic = 0\<rparr>
      else if ing = ''simple syrup'' \<or> ing = ''honey'' then
        with_taste ing \<lparr>sweet = 1, sour = 0, bitter = 0, savory = 0, aromatic = 0\<rparr>
      else empty_profile)"

definition example_env :: env where
  "example_env =
     \<lparr>cocktails =
        [\<lparr>c_name = ''Even'', c_category = None, c_ingredients = [''even mix''],
          c_measures = [\<lparr>m_value = Some 30\<rparr>]\<rparr>,
         \<lparr>c_name = ''Mild'', c_category = None, c_ingredients = [''mild mix''],
          c_measures = [\<lparr>m_value = Some 30\<rparr>]\<rparr>,
         \<lparr>c_name = ''Bitter Neat'', c_category = Some ''Shot'', c_ingredients = [''amaro''],
          c_measures = [\<lparr>m_value = Some 51\<rparr>]\<rparr>,
         \<lparr>c_name = ''Ghost'', c_category = None, c_ingredients = [''unobtainium''],
          c_measures = [\<lparr>m_value = Some 0\<rparr>]\<rparr>],
      base_profile = example_profile,
      enhanced_profile = example_profile,
      available_ingredients = [''simple syrup'', ''honey'', ''lemon juice''],
      ingredient_plausibility = [(''honey'', 0.9), (''tomato juice'', 0.1)],
      float_tie_up = (\<lambda>x. False)\<rparr>"

text \<open>The suggestion \<^verbatim>\<open>_find_corrective_ingredients\<close> builds for one of the two syrups.\<close>

definition syrup_suggestion :: "string \<Rightarrow> suggestion" where
  "syrup_suggestion ing =
     \<lparr>s_action = ''add'', s_ingredient = ing, s_amount = 15,
      ingredient_taste_profile = \<lparr>sweet = 1, sour = 0, bitter = 0, savory = 0, aromatic = 0\<rparr>\<rparr>"

text \<open>
  The recommendation and the tested candidate that the cocktail \<^verbatim>\<open>'Bitter Neat'\<close> gets for a
  syrup, and two candidate dictionaries of V4.
\<close>

definition syrup_recommendation :: "string \<Rightarrow> recommendation" where
  "syrup_recommendation ing =
     \<lparr>issue_dimension = Bitter, issue_kind = TooHigh,
      rec_suggestion = (syrup_suggestion ing)\<lparr>s_amount := 46 / 5\<rparr>\<rparr>"

definition syrup_candidate :: "nat \<Rightarrow> string \<Rightarrow> candidate" where
  "syrup_candidate k ing =
     \<lparr>rank = k, cand_modification = [Add ing (Some (46 / 5))], cand_ingredient = ing,
      cand_amount = 46 / 5, cand_original_balance = 25 / 29,
      cand_new_balance = 2265025 / 2510129,
      improvement = 2265025 / 2510129 - 25 / 29\<rparr>"

definition example_v4_candidates :: "v4_candidate list" where
  "example_v4_candidates =
     [\<lparr>v4_ingredient = ''Tomato Juice'', v4_amount = 10, v4_improvement = 0.04,
       v4_original_balance = 0.86, v4_new_balance = 0.90\<rparr>,
      \<lparr>v4_ingredient = ''honey '', v4_amount = 10, v4_improvement = 0.01,
       v4_original_balance = 0.86, v4_new_balance = 0.87\<rparr>]"

text \<open>The two ingredients of the worked example of the specification, 50 ml each.\<close>

definition example_sweet :: profile where
  "example_sweet =
     with_taste ''A'' \<lparr>sweet = 0.9, sour = 0, bitter = 0, savory = 0, aromatic = 0\<rparr>"

definition example_sour :: profile where
  "example_sour =
     with_taste ''B'' \<lparr>sweet = 0, sour = 0.9, bitter = 0, savory = 0, aromatic = 0\<rparr>"

definition fifty_fifty :: "measure list" where
  "fifty_fifty = [\<lparr>m_value = Some 50\<rparr>, \<lparr>m_value = Some 50\<rparr>]"

definition aggregated_taste_of :: "py_error + aggregated option \<Rightarrow> taste option" where
  "aggregated_taste_of x = (case x of Inr (Some agg) \<Rightarrow> Some (agg_taste_scores agg) | _ \<Rightarrow> None)"

section \<open>Facts about the numpy statistics of five values\<close>

lemma dict_values5: "dict_values t = [sweet t, sour t, bitter t, savory t, aromatic t]"
  by (simp add: dict_values_def taste_dimensions_def)

lemma dict_items5:
  "dict_items t =
     [(Sweet, sweet t), (Sour, sour t), (Bitter, bitter t), (Savory, savory t), (Aromatic, aromatic t)]"
  by (simp add: dict_items_def taste_dimensions_def)

lemma np_mean5: "np_mean [a, b, c, d, e] = (a + b + c + d + e) / 5"
  by (simp add: np_mean_def)

lemma np_var5:
  "np_var [a, b, c, d, e] = (a * a + b * b + c * c + d * d + e * e) / 5 - ((a + b + c + d + e) / 5)^2"
  by (simp add: np_var_def np_mean_def power2_eq_square field_simps)

lemma np_var5_dev:
  "np_var [a, b, c, d, e] =
     ((a - np_mean [a, b, c, d, e])^2 + (b - np_mean [a, b, c, d, e])^2
      + (c - np_mean [a, b, c, d, e])^2 + (d - np_mean [a, b, c, d, e])^2
      + (e - np_mean [a, b, c, d, e])^2) / 5"
  by (simp add: np_var_def np_mean_def)

lemma np_var5_nonneg: "0 \<le> np_var [a, b, c, d, e]"
  unfolding np_var5_dev by simp

lemma np_var5_zero_iff: "np_var [a, b, c, d, e] = 0 \<longleftrightarrow> a = b \<and> b = c \<and> c = d \<and> d = e"
proof
  assume z: "np_var [a, b, c, d, e] = 0"
  define m where "m = np_mean [a, b, c, d, e]"
  have s: "(a - m)^2 + (b - m)^2 + (c - m)^2 + (d - m)^2 + (e - m)^2 = 0"
    using z unfolding np_var5_dev m_def by simp
  have n: "0 \<le> (a - m)^2" "0 \<le> (b - m)^2" "0 \<le> (c - m)^2" "0 \<le> (d - m)^2" "0 \<le> (e - m)^2"
    by simp_all
  have "(a - m)^2 = 0" "(b - m)^2 = 0" "(c - m)^2 = 0" "(d - m)^2 = 0" "(e - m)^2 = 0"
    using s n by linarith+
  then have "a = m" "b = m" "c = m" "d = m" "e = m" by simp_all
  then show "a = b \<and> b = c \<and> c = d \<and> d = e" by simp
next
  assume "a = b \<and> b = c \<and> c = d \<and> d = e"
  then show "np_var [a, b, c, d, e] = 0" by (simp add: np_var5 power2_eq_square)
qed

text \<open>Five values between 0 and 1 have a variance of at most one quarter.\<close>

lemma np_var5_le_quarter:
  assumes "0 \<le> a" "a \<le> 1" "0 \<le> b" "b \<le> 1" "0 \<le> c" "c \<le> 1" "0 \<le> d" "d \<le> 1"
    "0 \<le> e" "e \<le> (1::real)"
  shows "np_var [a, b, c, d, e] \<le> 1 / 4"
proof -
  define m where "m = (a + b + c + d + e) / 5"
  have sq: "a * a \<le> a" "b * b \<le> b" "c * c \<le> c" "d * d \<le> d" "e * e \<le> e"
    using assms by (simp_all add: mult_left_le_one_le)
  have "np_var [a, b, c, d, e] \<le> m - m^2"
    unfolding np_var5 m_def using sq by (simp add: field_simps)
  also have "m - m^2 = 1 / 4 - (m - 1 / 2)^2"
    by (simp add: power2_eq_square algebra_simps)
  also have "\<dots> \<le> 1 / 4" by simp
  finally show ?thesis .
qed

section \<open>The balance score\<close>

lemma balance_nonzero:
  "\<not> list_all (\<lambda>s. s = 0) (dict_values t) \<Longrightarrow>
     compute_overall_balance t = 1 / (1 + np_var (dict_values t))"
  by (auto simp: compute_overall_balance_def Let_def dict_values5)

lemma all_zero_iff: "list_all (\<lambda>s. s = 0) (dict_values t) \<longleftrightarrow> t = zero_taste"
  by (cases t) (auto simp: dict_values5 zero_taste_def)

text \<open>
  Claim C1, as the code has it.  The scorer has a guard for the all-zero vector, for which it
  returns 0.  For every other taste vector with entries in \<open>[0, 1]\<close> it returns
  \<open>1 / (1 + variance)\<close>; this lies in \<open>(0, 1]\<close>, is 1 whenever the five dimensions are equal,
  and is at least 0.8.  That 1 is returned only for equal dimensions is not stated: floats
  return 1.0 also for a variance too small to change \<^verbatim>\<open>1.0 + variance\<close>.
\<close>

theorem balance_of_legal_vector:
  assumes "legal_taste t"
  shows "if t = zero_taste then compute_overall_balance t = 0
         else compute_overall_balance t = 1 / (1 + np_var (dict_values t))
            \<and> 0 < compute_overall_balance t \<and> compute_overall_balance t \<le> 1
            \<and> (sweet t = sour t \<and> sour t = bitter t \<and> bitter t = savory t \<and> savory t = aromatic t
                 \<longrightarrow> compute_overall_balance t = 1)
            \<and> 4 / 5 \<le> compute_overall_balance t"
proof (cases "t = zero_taste")
  case True
  then show ?thesis by (simp add: compute_overall_balance_def zero_taste_def dict_values5)
next
  case False
  let ?v = "np_var (dict_values t)"
  have eq: "compute_overall_balance t = 1 / (1 + ?v)"
    using False by (simp add: balance_nonzero all_zero_iff)
  have v0: "0 \<le> ?v" by (simp add: dict_values5 np_var5_nonneg)
  have v1: "?v \<le> 1 / 4"
    using assms unfolding legal_taste_def dict_values5 by (intro np_var5_le_quarter) simp_all
  have pos: "0 < compute_overall_balance t" unfolding eq using v0 by simp
  have le: "compute_overall_balance t \<le> 1" unfolding eq using v0 by simp
  have ge: "4 / 5 \<le> compute_overall_balance t" unfolding eq using v0 v1 by (simp add: field_simps)
  have imp: "sweet t = sour t \<and> sour t = bitter t \<and> bitter t = savory t \<and> savory t = aromatic t
               \<longrightarrow> compute_overall_balance t = 1"
  proof
    assume "sweet t = sour t \<and> sour t = bitter t \<and> bitter t = savory t \<and> savory t = aromatic t"
    then have "np_var [sweet t, sour t, bitter t, savory t, aromatic t] = 0"
      by (simp only: np_var5_zero_iff)
    then have "?v = 0" by (simp only: dict_values5)
    then show "compute_overall_balance t = 1" unfolding eq by simp
  qed
  have c: "compute_overall_balance t = 1 / (1 + np_var (dict_values t))
            \<and> 0 < compute_overall_balance t \<and> compute_overall_balance t \<le> 1
            \<and> (sweet t = sour t \<and> sour t = bitter t \<and> bitter t = savory t \<and> savory t = aromatic t
                 \<longrightarrow> compute_overall_balance t = 1)
            \<and> 4 / 5 \<le> compute_overall_balance t"
    by (intro conjI eq pos le imp ge)
  show ?thesis by (simp only: if_not_P [OF False]) (rule c)
qed

theorem balance_of_legal_vector_witness:
  "legal_taste \<lparr>sweet = 1, sour = 0, bitter = 0, savory = 0, aromatic = 0\<rparr>
   \<and> compute_overall_balance \<lparr>sweet = 1, sour = 0, bitter = 0, savory = 0, aromatic = 0\<rparr> = 25 / 29
   \<and> 4 / 5 \<le> compute_overall_balance \<lparr>sweet = 1, sour = 0, bitter = 0, savory = 0, aromatic = 0\<rparr>
   \<and> legal_taste \<lparr>sweet = 0.5, sour = 0.5, bitter = 0.5, savory = 0.5, aromatic = 0.5\<rparr>
   \<and> compute_overall_balance
         \<lparr>sweet = 0.5, sour = 0.5, bitter = 0.5, savory = 0.5, aromatic = 0.5\<rparr> = 1"
proof -
  let ?t = "\<lparr>sweet = 1, sour = 0, bitter = 0, savory = 0, aromatic = 0\<rparr>"
  let ?h = "\<lparr>sweet = 0.5, sour = 0.5, bitter = 0.5, savory = 0.5, aromatic = 0.5\<rparr>"
  have l: "legal_taste ?t" by (simp add: legal_taste_def dict_values5)
  have v: "1 / (1 + np_var (dict_values ?t)) = 25 / 29"
    by (simp add: dict_values5 np_var5 power2_eq_square)
  have A: "compute_overall_balance ?t = 25 / 29 \<and> 4 / 5 \<le> compute_overall_balance ?t"
    using l v balance_of_legal_vector [OF l] by (simp add: zero_taste_def)
  have l2: "legal_taste ?h" by (simp add: legal_taste_def dict_values5)
  have nz: "?h \<noteq> zero_taste" by (simp add: zero_taste_def)
  note h = balance_of_legal_vector [OF l2, unfolded if_not_P [OF nz]]
  have eqs: "sweet ?h = sour ?h \<and> sour ?h = bitter ?h \<and> bitter ?h = savory ?h
               \<and> savory ?h = aromatic ?h"
    by simp
  have B: "compute_overall_balance ?h = 1" using h eqs by blast
  show ?thesis using l A l2 B by blast
qed

text \<open>
  Claim C1 as stated fails at the all-zero vector: it is a legal taste vector with five equal
  entries, \<open>1 / (1 + variance)\<close> is 1 there, and the scorer returns 0.
\<close>

theorem balance_zero_vector_counterexample:
  "legal_taste zero_taste
   \<and> compute_overall_balance zero_taste = 0
   \<and> 1 / (1 + np_var (dict_values zero_taste)) = 1
   \<and> \<not> 0 < compute_overall_balance zero_taste
   \<and> \<not> 4 / 5 \<le> compute_overall_balance zero_taste
   \<and> sweet zero_taste = sour zero_taste \<and> sour zero_taste = bitter zero_taste
   \<and> bitter zero_taste = savory zero_taste \<and> savory zero_taste = aromatic zero_taste
   \<and> compute_overall_balance zero_taste \<noteq> 1"
  by (simp add: legal_taste_def compute_overall_balance_def zero_taste_def dict_values5 np_var5)

section \<open>The statistical imbalance detector\<close>

lemma np_std_nonneg: "0 \<le> np_std (dict_values t)"
  by (simp add: np_std_def dict_values5 np_var5_nonneg)

lemma forced_priority: "\<forall>i \<in> set (forced_imbalances target). i_priority i = High"
  by (auto simp: forced_imbalances_def split: option.split prod.split)

lemma flagged_append: "flagged (xs @ ys) d k \<longleftrightarrow> flagged xs d k \<or> flagged ys d k"
  by (auto simp: flagged_def)

lemma flagged_Nil: "\<not> flagged [] d k"
  by (simp add: flagged_def)

lemma flagged_forced: "\<not> flagged (forced_imbalances target) d k"
  using forced_priority [of target] by (auto simp: flagged_def)

lemma flagged_auto_detect_high:
  "flagged (auto_detect m s items) d TooHigh \<longleftrightarrow> (\<exists>x. (d, x) \<in> set items \<and> x > m + s)"
  by (induction m s items rule: auto_detect.induct)
     (auto simp: flagged_append flagged_Nil, auto simp: flagged_def)

lemma flagged_auto_detect_low:
  "0 \<le> s \<Longrightarrow> flagged (auto_detect m s items) d TooLow \<longleftrightarrow>
     (\<exists>x. (d, x) \<in> set items \<and> x < m - s \<and> x < 0.3)"
  by (induction m s items rule: auto_detect.induct)
     (auto simp: flagged_append flagged_Nil, auto simp: flagged_def)

lemma flagged_auto_detect_v2_high:
  "flagged (auto_detect_v2 m s items) d TooHigh \<longleftrightarrow> (\<exists>x. (d, x) \<in> set items \<and> x > m + s * 0.7)"
  by (induction m s items rule: auto_detect_v2.induct)
     (auto simp: flagged_append flagged_Nil, auto simp: flagged_def)

lemma flagged_auto_detect_v2_low:
  "0 \<le> s \<Longrightarrow> flagged (auto_detect_v2 m s items) d TooLow \<longleftrightarrow>
     (\<exists>x. (d, x) \<in> set items \<and> x < m - s * 0.7 \<and> x < 0.3)"
  by (induction m s items rule: auto_detect_v2.induct)
     (auto simp: flagged_append flagged_Nil, auto simp: flagged_def)

lemma in_dict_items: "(d, x) \<in> set (dict_items t) \<longleftrightarrow> x = score t d"
  by (cases d) (auto simp: dict_items5)

lemma sqrt_4_25: "sqrt (4 / 25) = 2 / 5"
  by (rule real_sqrt_unique) (simp_all add: power2_eq_square)

lemma np_std_one_hot: "np_std [1, 0, 0, 0, 0] = 2 / 5" "np_std [0, 0, 1, 0, 0] = 2 / 5"
  by (simp_all add: np_std_def np_var5 power2_eq_square sqrt_4_25)

text \<open>
  Claim C6.  In \<^verbatim>\<open>FlavorOptimizer\<close> (\<open>k = 1.0\<close>) and in \<^verbatim>\<open>FlavorOptimizerV2\<close> and V3
  (\<open>k = 0.7\<close>), whatever the target, a dimension is flagged too high by the statistical
  detector exactly when its score exceeds \<open>mean + k * std\<close>, and too low exactly when its score
  is below \<open>mean - k * std\<close> and below 0.3.
\<close>

theorem statistical_detection:
  "(flagged (identify_imbalances t target) d TooHigh \<longleftrightarrow>
      score t d > np_mean (dict_values t) + 1.0 * np_std (dict_values t))
   \<and> (flagged (identify_imbalances t target) d TooLow \<longleftrightarrow>
      score t d < np_mean (dict_values t) - 1.0 * np_std (dict_values t) \<and> score t d < 0.3)
   \<and> (flagged (identify_imbalances_v2 t target) d TooHigh \<longleftrightarrow>
      score t d > np_mean (dict_values t) + 0.7 * np_std (dict_values t))
   \<and> (flagged (identify_imbalances_v2 t target) d TooLow \<longleftrightarrow>
      score t d < np_mean (dict_values t) - 0.7 * np_std (dict_values t) \<and> score t d < 0.3)
   \<and> identify_imbalances_v3 t target = identify_imbalances_v2 t target"
proof -
  let ?m = "np_mean (dict_values t)" and ?s = "np_std (dict_values t)"
  have s0: "0 \<le> ?s" by (rule np_std_nonneg)
  have h1: "flagged (identify_imbalances t target) d TooHigh \<longleftrightarrow> score t d > ?m + ?s"
    by (simp add: identify_imbalances_def Let_def flagged_append flagged_forced
          flagged_auto_detect_high in_dict_items)
  have l1: "flagged (identify_imbalances t target) d TooLow \<longleftrightarrow> score t d < ?m - ?s \<and> score t d < 0.3"
    by (simp add: identify_imbalances_def Let_def flagged_append flagged_forced
          flagged_auto_detect_low [OF s0] in_dict_items)
  have h2: "flagged (identify_imbalances_v2 t target) d TooHigh \<longleftrightarrow> score t d > ?m + 0.7 * ?s"
    by (simp add: identify_imbalances_v2_def Let_def flagged_append flagged_forced
          flagged_auto_detect_v2_high in_dict_items mult.commute)
  have l2: "flagged (identify_imbalances_v2 t target) d TooLow \<longleftrightarrow> score t d < ?m - 0.7 * ?s \<and> score t d < 0.3"
    by (simp add: identify_imbalances_v2_def Let_def flagged_append flagged_forced
          flagged_auto_detect_v2_low [OF s0] in_dict_items mult.commute)
  show ?thesis using h1 l1 h2 l2 by (simp add: identify_imbalances_v3_def)
qed

theorem statistical_detection_witness:
  "flagged (identify_imbalances \<lparr>sweet = 1, sour = 0, bitter = 0, savory = 0, aromatic = 0\<rparr> None)
     Sweet TooHigh
   \<and> \<not> flagged (identify_imbalances \<lparr>sweet = 1, sour = 0, bitter = 0, savory = 0, aromatic = 0\<rparr> None)
     Sweet TooLow
   \<and> flagged (identify_imbalances_v2 \<lparr>sweet = 1, sour = 0, bitter = 0, savory = 0, aromatic = 0\<rparr> None)
     Sweet TooHigh"
  using statistical_detection
          [of "\<lparr>sweet = 1, sour = 0, bitter = 0, savory = 0, aromatic = 0\<rparr>" None Sweet]
  by (simp add: dict_values5 np_mean5 np_std_one_hot)

section \<open>The threshold gate of \<^verbatim>\<open>recommend_improvements\<close> (V2, V3)\<close>

lemmas eval_defs =
  aggregate_profiles_def effective_volumes_def measure_value_def py_truediv_def
  example_profile_def with_taste_def zero_taste_def add_weighted_def np_average_def
  top_items_def py_sorted_def example_env_def str_lower_def lower_char_def
  analyze_cocktail_def compute_overall_balance_def compute_complexity_def
  dict_values5 np_var5 np_mean5 power2_eq_square empty_profile_def

lemma analysis_even:
  "\<exists>a. analyze_cocktail example_env ''even'' = Inr (Result a) \<and> overall_balance a = 1"
  by (simp add: eval_defs)

lemma analysis_mild:
  "\<exists>a. analyze_cocktail example_env ''MILD'' = Inr (Result a) \<and> overall_balance a = 1250 / 1277
     \<and> balance_scores a = \<lparr>sweet = 0.3, sour = 0.3, bitter = 0, savory = 0, aromatic = 0\<rparr>"
  by (simp add: eval_defs)

lemma gate_excellent:
  assumes "analyze_cocktail env n = Inr (Result a)" and "0.98 \<le> overall_balance a"
  shows "recommend_with keep table env n target =
           Inr (Result \<lparr>r_cocktail = n, r_current_balance = balance_scores a,
                        overall_balance_score = overall_balance a,
                        r_message = Some ''Cocktail is already excellently balanced! No changes recommended.'',
                        identified_issues = [], recommended = []\<rparr>)"
  using assms by (simp add: recommend_with_def should_recommend_changes_def Let_def)

lemma max_deviation_less:
  "max_deviation t < b \<longleftrightarrow> (\<forall>d. \<bar>score t d - np_mean (dict_values t)\<bar> < b)"
proof -
  have "max_deviation t < b \<longleftrightarrow>
          (\<forall>x \<in> set (map (\<lambda>s. \<bar>s - np_mean (dict_values t)\<bar>) (dict_values t)). x < b)"
    unfolding max_deviation_def by (subst Max_less_iff) (simp_all add: dict_values5)
  also have "\<dots> \<longleftrightarrow> (\<forall>d. \<bar>score t d - np_mean (dict_values t)\<bar> < b)"
  proof
    assume h: "\<forall>x \<in> set (map (\<lambda>s. \<bar>s - np_mean (dict_values t)\<bar>) (dict_values t)). x < b"
    show "\<forall>d. \<bar>score t d - np_mean (dict_values t)\<bar> < b"
    proof
      fix d show "\<bar>score t d - np_mean (dict_values t)\<bar> < b"
        using h by (cases d) (simp_all add: dict_values_def taste_dimensions_def)
    qed
  next
    assume h: "\<forall>d. \<bar>score t d - np_mean (dict_values t)\<bar> < b"
    show "\<forall>x \<in> set (map (\<lambda>s. \<bar>s - np_mean (dict_values t)\<bar>) (dict_values t)). x < b"
      using h by (auto simp: dict_values_def)
  qed
  finally show ?thesis .
qed

lemma gate_very_good:
  assumes "analyze_cocktail env n = Inr (Result a)"
    and "0.95 \<le> overall_balance a" and "overall_balance a < 0.98"
    and "max_deviation (balance_scores a) < 0.25"
  shows "recommend_with keep table env n target =
           Inr (Result \<lparr>r_cocktail = n, r_current_balance = balance_scores a,
                        overall_balance_score = overall_balance a,
                        r_message = Some ''Cocktail is very well balanced. Only minor refinements possible.'',
                        identified_issues = [], recommended = []\<rparr>)"
  using assms by (simp add: recommend_with_def should_recommend_changes_def Let_def)

text \<open>
  Claim C3.  For a cocktail whose analysis gives an overall balance of at least 0.98,
  \<^verbatim>\<open>recommend_improvements\<close> of V2 and of V3 returns, whatever the target, the dictionary with
  the explanatory message, no identified issue and an empty recommendation list: there is no
  suggestion, so none with a zero or minimum amount.
\<close>

theorem no_recommendation_at_excellent_balance:
  assumes "analyze_cocktail env n = Inr (Result a)" and "0.98 \<le> overall_balance a"
  shows "recommend_improvements_v2 env n target =
           Inr (Result \<lparr>r_cocktail = n, r_current_balance = balance_scores a,
                        overall_balance_score = overall_balance a,
                        r_message = Some ''Cocktail is already excellently balanced! No changes recommended.'',
                        identified_issues = [], recommended = []\<rparr>)
       \<and> recommend_improvements_v3 env n target = recommend_improvements_v2 env n target
       \<and> suggested_amounts (recommend_improvements_v2 env n target) = []"
  using gate_excellent [OF assms]
  by (simp add: recommend_improvements_v2_def recommend_improvements_v3_def suggested_amounts_def
        the_result_def)

theorem no_recommendation_at_excellent_balance_witness:
  "\<exists>a. analyze_cocktail example_env ''even'' = Inr (Result a) \<and> 0.98 \<le> overall_balance a
     \<and> the_result (recommend_improvements_v2 example_env ''even'' (Some ''sweeter'')) =
         Some \<lparr>r_cocktail = ''even'', r_current_balance = balance_scores a,
               overall_balance_score = overall_balance a,
               r_message = Some ''Cocktail is already excellently balanced! No changes recommended.'',
               identified_issues = [], recommended = []\<rparr>"
proof -
  obtain a where a: "analyze_cocktail example_env ''even'' = Inr (Result a)" "overall_balance a = 1"
    using analysis_even by blast
  have b: "0.98 \<le> overall_balance a" using a by simp
  show ?thesis
    using a b no_recommendation_at_excellent_balance [OF a(1) b, of "Some ''sweeter''"]
    by (simp add: the_result_def)
qed

text \<open>
  Claim C10.  For a cocktail whose overall balance lies in \<open>[0.95, 0.98)\<close> and whose every
  taste dimension deviates from the mean by less than 0.25, \<^verbatim>\<open>recommend_improvements\<close> of V2
  and of V3 returns the dictionary with a message, no identified issue and an empty
  recommendation list.
\<close>

theorem suppression_of_very_good_cocktails:
  assumes "analyze_cocktail env n = Inr (Result a)"
    and "0.95 \<le> overall_balance a" and "overall_balance a < 0.98"
    and "\<forall>d. \<bar>score (balance_scores a) d - np_mean (dict_values (balance_scores a))\<bar> < 0.25"
  shows "recommend_improvements_v2 env n target =
           Inr (Result \<lparr>r_cocktail = n, r_current_balance = balance_scores a,
                        overall_balance_score = overall_balance a,
                        r_message = Some ''Cocktail is very well balanced. Only minor refinements possible.'',
                        identified_issues = [], recommended = []\<rparr>)
       \<and> recommend_improvements_v3 env n target = recommend_improvements_v2 env n target"
proof -
  have m: "max_deviation (balance_scores a) < 0.25"
    using assms(4) max_deviation_less [of "balance_scores a" "0.25"] by blast
  show ?thesis
    using gate_very_good [OF assms(1-3) m]
    by (simp add: recommend_improvements_v2_def recommend_improvements_v3_def)
qed

theorem suppression_of_very_good_cocktails_witness:
  "\<exists>a. analyze_cocktail example_env ''MILD'' = Inr (Result a)
     \<and> 0.95 \<le> overall_balance a \<and> overall_balance a < 0.98
     \<and> (\<forall>d. \<bar>score (balance_scores a) d - np_mean (dict_values (balance_scores a))\<bar> < 0.25)
     \<and> the_result (recommend_improvements_v2 example_env ''MILD'' None) =
         Some \<lparr>r_cocktail = ''MILD'', r_current_balance = balance_scores a,
               overall_balance_score = overall_balance a,
               r_message = Some ''Cocktail is very well balanced. Only minor refinements possible.'',
               identified_issues = [], recommended = []\<rparr>"
proof -
  obtain a where a: "analyze_cocktail example_env ''MILD'' = Inr (Result a)"
      "overall_balance a = 1250 / 1277"
      "balance_scores a = \<lparr>sweet = 0.3, sour = 0.3, bitter = 0, savory = 0, aromatic = 0\<rparr>"
    using analysis_mild by blast
  have b: "0.95 \<le> overall_balance a" "overall_balance a < 0.98" using a by simp_all
  have c: "\<forall>d. \<bar>score (balance_scores a) d - np_mean (dict_values (balance_scores a))\<bar> < 0.25"
  proof
    fix d show "\<bar>score (balance_scores a) d - np_mean (dict_values (balance_scores a))\<bar> < 0.25"
      by (cases d) (simp_all add: a dict_values5 np_mean5)
  qed
  show ?thesis
    using a(1) b c suppression_of_very_good_cocktails [OF a(1) b c, of None]
    by (simp add: the_result_def)
qed

section \<open>An explicit target\<close>

lemma auto_detect_medium: "list_all (\<lambda>i. i_priority i = Medium) (auto_detect m s items)"
  by (induction m s items rule: auto_detect.induct) auto

lemma auto_detect_v2_medium: "list_all (\<lambda>i. i_priority i = Medium) (auto_detect_v2 m s items)"
  by (induction m s items rule: auto_detect_v2.induct) auto

text \<open>
  Claim C7, as the code has it.  The statistical detection is not in an \<^verbatim>\<open>else\<close> branch: with
  a target the detector returns the forced imbalance of priority \<^verbatim>\<open>'high'\<close> first (for the four
  recognised targets), followed by everything the statistical test finds without a target,
  all of priority \<^verbatim>\<open>'medium'\<close>.
\<close>

theorem explicit_target_is_prepended:
  "identify_imbalances t target = forced_imbalances target @ identify_imbalances t None
   \<and> identify_imbalances_v2 t target = forced_imbalances target @ identify_imbalances_v2 t None
   \<and> identify_imbalances_v3 t target = forced_imbalances target @ identify_imbalances_v3 t None
   \<and> forced_imbalances (Some ''sweeter'') =
       [\<lparr>i_dimension = Sweet, i_type = TooLow, i_priority = High, current_value = None\<rparr>]
   \<and> forced_imbalances (Some ''more_sour'') =
       [\<lparr>i_dimension = Sour, i_type = TooLow, i_priority = High, current_value = None\<rparr>]
   \<and> forced_imbalances (Some ''less_bitter'') =
       [\<lparr>i_dimension = Bitter, i_type = TooHigh, i_priority = High, current_value = None\<rparr>]
   \<and> forced_imbalances (Some ''more_aromatic'') =
       [\<lparr>i_dimension = Aromatic, i_type = TooLow, i_priority = High, current_value = None\<rparr>]
   \<and> list_all (\<lambda>i. i_priority i = Medium) (identify_imbalances t None)
   \<and> list_all (\<lambda>i. i_priority i = Medium) (identify_imbalances_v2 t None)"
  by (simp add: identify_imbalances_def identify_imbalances_v2_def identify_imbalances_v3_def
        forced_imbalances_def target_map_def auto_detect_medium auto_detect_v2_medium)

text \<open>
  Claim C7 as stated fails for a drink that is only sweet and the target \<^verbatim>\<open>'sweeter'\<close>: the
  detector returns the forced entry and, after it, the statistical entry "sweet is too high".
\<close>

theorem explicit_target_counterexample:
  "identify_imbalances \<lparr>sweet = 1, sour = 0, bitter = 0, savory = 0, aromatic = 0\<rparr> (Some ''sweeter'')
     = [\<lparr>i_dimension = Sweet, i_type = TooLow, i_priority = High, current_value = None\<rparr>,
        \<lparr>i_dimension = Sweet, i_type = TooHigh, i_priority = Medium, current_value = Some 1\<rparr>]
   \<and> identify_imbalances_v2 \<lparr>sweet = 1, sour = 0, bitter = 0, savory = 0, aromatic = 0\<rparr> (Some ''sweeter'')
     = [\<lparr>i_dimension = Sweet, i_type = TooLow, i_priority = High, current_value = None\<rparr>,
        \<lparr>i_dimension = Sweet, i_type = TooHigh, i_priority = Medium, current_value = Some 1\<rparr>]
   \<and> identify_imbalances \<lparr>sweet = 1, sour = 0, bitter = 0, savory = 0, aromatic = 0\<rparr> (Some ''sweeter'')
     \<noteq> [\<lparr>i_dimension = Sweet, i_type = TooLow, i_priority = High, current_value = None\<rparr>]"
  by (simp add: identify_imbalances_def identify_imbalances_v2_def forced_imbalances_def
        target_map_def dict_values5 dict_items5 np_mean5 np_std_one_hot)

section \<open>The adaptive amount\<close>

lemma py_round1_tenth:
  "\<exists>k::int. py_round1 u x = of_int k / 10 \<and> \<bar>of_int k - x * 10\<bar> \<le> 1 / 2"
proof -
  define f where "f = \<lfloor>x * 10\<rfloor>"
  have b: "of_int f \<le> x * 10" "x * 10 < of_int f + 1" unfolding f_def by linarith+
  consider (lo) "x * 10 - of_int f < 1 / 2"
    | (hi) "x * 10 - of_int f > 1 / 2"
    | (tie_up) "x * 10 - of_int f = 1 / 2" "u x"
    | (tie_down) "x * 10 - of_int f = 1 / 2" "\<not> u x"
    by linarith
  then show ?thesis
  proof cases
    case lo
    then have "py_round1 u x = of_int f / 10" by (simp add: py_round1_def f_def Let_def)
    moreover have "\<bar>of_int f - x * 10\<bar> \<le> 1 / 2" using lo b by (simp add: abs_if)
    ultimately show ?thesis by blast
  next
    case hi
    then have "py_round1 u x = of_int (f + 1) / 10" by (simp add: py_round1_def f_def Let_def)
    moreover have "\<bar>of_int (f + 1) - x * 10\<bar> \<le> 1 / 2" using hi b by (simp add: abs_if)
    ultimately show ?thesis by blast
  next
    case tie_up
    then have "py_round1 u x = of_int (f + 1) / 10" by (simp add: py_round1_def f_def Let_def)
    moreover have "\<bar>of_int (f + 1) - x * 10\<bar> \<le> 1 / 2" using tie_up b by (simp add: abs_if)
    ultimately show ?thesis by blast
  next
    case tie_down
    then have "py_round1 u x = of_int f / 10" by (simp add: py_round1_def f_def Let_def)
    moreover have "\<bar>of_int f - x * 10\<bar> \<le> 1 / 2" using tie_down b by (simp add: abs_if)
    ultimately show ?thesis by blast
  qed
qed

lemma py_round1_near: "\<bar>py_round1 u x - x\<bar> \<le> 1 / 20"
proof -
  obtain k :: int where k: "py_round1 u x = of_int k / 10" "\<bar>of_int k - x * 10\<bar> \<le> 1 / 2"
    using py_round1_tenth by blast
  have "\<bar>real_of_int k / 10 - x\<bar> \<le> 1 / 20"
    using k(2) by (auto simp: abs_if split: if_splits)
  then show ?thesis unfolding k(1) .
qed

lemma py_round1_range:
  assumes "5 \<le> x" "x \<le> 30"
  shows "5 \<le> py_round1 u x \<and> py_round1 u x \<le> 30"
proof -
  obtain k :: int where k: "py_round1 u x = of_int k / 10" "\<bar>of_int k - x * 10\<bar> \<le> 1 / 2"
    using py_round1_tenth by blast
  have "real_of_int k > 49" "real_of_int k < 301" using k(2) assms by (auto simp: abs_if split: if_splits)
  then have "k > 49" "k < 301" by linarith+
  then have "50 \<le> k" "k \<le> 300" by simp_all
  then have "50 \<le> real_of_int k" "real_of_int k \<le> 300" by linarith+
  then show ?thesis unfolding k(1) by simp
qed

lemma clamp_range: "5 \<le> clamped_amount b m v \<and> clamped_amount b m v \<le> 30"
  by (simp add: clamped_amount_def)

lemma amount_eq:
  "calculate_adaptive_amount env b m v = py_round1 (float_tie_up env) (clamped_amount b m v)"
  by (simp add: calculate_adaptive_amount_def clamped_amount_def Let_def)

lemma recommended_amounts:
  assumes a: "analyze_cocktail env n = Inr (Result a)"
    and r: "recommend_with keep table env n target = Inr (Result r)"
    and rc: "rc \<in> set (recommended r)"
  shows "s_amount (rec_suggestion rc) =
           calculate_adaptive_amount env (overall_balance a)
             \<bar>score (balance_scores a) (issue_dimension rc) - np_mean (dict_values (balance_scores a))\<bar>
             (agg_total_volume (aggregated_profile a))"
proof -
  obtain sr msg where s: "should_recommend_changes (overall_balance a) (balance_scores a) = (sr, msg)"
    by fastforce
  show ?thesis
  proof (cases sr)
    case False
    then have "recommended r = []"
      using a r s by (simp add: recommend_with_def Let_def) auto
    then show ?thesis using rc by simp
  next
    case True
    let ?amt = "\<lambda>d. calculate_adaptive_amount env (overall_balance a)
                  \<bar>score (balance_scores a) d - np_mean (dict_values (balance_scores a))\<bar>
                  (agg_total_volume (aggregated_profile a))"
    have "recommended r =
            concat (map (\<lambda>imbalance.
               map (\<lambda>s. \<lparr>issue_dimension = i_dimension imbalance, issue_kind = i_type imbalance,
                          rec_suggestion = s\<lparr>s_amount := ?amt (i_dimension imbalance)\<rparr>\<rparr>)
                 (take keep (find_corrective_with table env (i_dimension imbalance) (i_type imbalance)
                    (balance_scores a) (a_ingredients a))))
              (identify_imbalances_v2 (balance_scores a) target))"
      using a r s True by (simp add: recommend_with_def Let_def) auto
    with rc have "\<exists>d k s. rc = \<lparr>issue_dimension = d, issue_kind = k,
                      rec_suggestion = s\<lparr>s_amount := ?amt d\<rparr>\<rparr>"
      by auto
    then show ?thesis by auto
  qed
qed


text \<open>
  Claim C8, as the code has it.  The amount of every recommendation of V2 and V3 is the clamp
  of \<open>total_volume * 0.12 * balance_factor * severity_factor\<close> into \<open>[5, 30]\<close>, rounded to one
  decimal place by \<^verbatim>\<open>round(..., 1)\<close>: it is a multiple of 0.1, lies in \<open>[5, 30]\<close> and is within
  0.05 of the clamp, whichever way a tie between two tenths is resolved.
  The balance factor is the step function of the claim, the severity factor is
  \<open>min (deviation / 0.3) 2\<close>, and at balance 0.80 with deviation 0.3 the amount before the
  clamp is \<open>total_volume * 0.12 * 0.75 * 1.0\<close>.
\<close>

theorem adaptive_amount_of_recommendations:
  assumes "analyze_cocktail env n = Inr (Result a)"
    and "recommend_improvements_v2 env n target = Inr (Result r)
         \<or> recommend_improvements_v3 env n target = Inr (Result r)"
    and "rc \<in> set (recommended r)"
  shows "(\<exists>k::int. s_amount (rec_suggestion rc) = of_int k / 10)
       \<and> 5 \<le> s_amount (rec_suggestion rc) \<and> s_amount (rec_suggestion rc) \<le> 30
       \<and> \<bar>s_amount (rec_suggestion rc) - clamped_amount (overall_balance a)
             \<bar>score (balance_scores a) (issue_dimension rc) - np_mean (dict_values (balance_scores a))\<bar>
             (agg_total_volume (aggregated_profile a))\<bar> \<le> 0.05
       \<and> clamped_amount b m v = max 5 (min (v * 0.12 * balance_factor b * severity_factor m) 30)
       \<and> balance_factor b =
           (if b \<ge> 0.98 then 0 else if b \<ge> 0.95 then 0.25 else if b \<ge> 0.90 then 0.5
            else if b \<ge> 0.80 then 0.75 else 1.0)
       \<and> severity_factor m = min (m / 0.3) 2.0
       \<and> raw_amount 0.80 0.3 v = v * 0.12 * 0.75 * 1.0"
proof -
  obtain keep table where r: "recommend_with keep table env n target = Inr (Result r)"
    using assms(2) unfolding recommend_improvements_v2_def recommend_improvements_v3_def by blast
  let ?c = "clamped_amount (overall_balance a)
             \<bar>score (balance_scores a) (issue_dimension rc) - np_mean (dict_values (balance_scores a))\<bar>
             (agg_total_volume (aggregated_profile a))"
  have e: "s_amount (rec_suggestion rc) = py_round1 (float_tie_up env) ?c"
    using recommended_amounts [OF assms(1) r assms(3)] by (simp add: amount_eq)
  have rng: "5 \<le> py_round1 (float_tie_up env) ?c \<and> py_round1 (float_tie_up env) ?c \<le> 30"
    using clamp_range py_round1_range by blast
  have near: "\<bar>py_round1 (float_tie_up env) ?c - ?c\<bar> \<le> 0.05"
    using py_round1_near [of "float_tie_up env" ?c] by simp
  have c1: "\<exists>k::int. s_amount (rec_suggestion rc) = of_int k / 10"
    unfolding e using py_round1_tenth [of "float_tie_up env" ?c] by blast
  have f: "raw_amount 0.80 0.3 v = v * 0.12 * 0.75 * 1.0"
    by (simp add: raw_amount_def balance_factor_def severity_factor_def)
  have c4: "clamped_amount b m v = max 5 (min (v * 0.12 * balance_factor b * severity_factor m) 30)"
    by (simp add: clamped_amount_def raw_amount_def)
  have c5: "balance_factor b =
           (if b \<ge> 0.98 then 0 else if b \<ge> 0.95 then 0.25 else if b \<ge> 0.90 then 0.5
            else if b \<ge> 0.80 then 0.75 else 1.0)"
    by (simp add: balance_factor_def)
  have c6: "severity_factor m = min (m / 0.3) 2.0"
    by (simp add: severity_factor_def)
  have c2: "5 \<le> s_amount (rec_suggestion rc) \<and> s_amount (rec_suggestion rc) \<le> 30"
    unfolding e by (rule rng)
  have c3: "\<bar>s_amount (rec_suggestion rc) - ?c\<bar> \<le> 0.05"
    unfolding e by (rule near)
  show ?thesis
    by (intro conjI c1 conjunct1 [OF c2] conjunct2 [OF c2] c3 c4 c5 c6 f)
qed

subsection \<open>Running the recommender on the data set\<close>

lemma analysis_bitter:
  "\<exists>a. analyze_cocktail example_env ''Bitter Neat'' = Inr (Result a)
     \<and> overall_balance a = 25 / 29
     \<and> balance_scores a = \<lparr>sweet = 0, sour = 0, bitter = 1, savory = 0, aromatic = 0\<rparr>
     \<and> agg_total_volume (aggregated_profile a) = 51
     \<and> a_ingredients a = [''amaro'']"
  by (simp add: eval_defs)

lemma detect_bitter:
  "identify_imbalances_v2 \<lparr>sweet = 0, sour = 0, bitter = 1, savory = 0, aromatic = 0\<rparr> None =
     [\<lparr>i_dimension = Bitter, i_type = TooHigh, i_priority = Medium, current_value = Some 1\<rparr>]"
  by (simp add: identify_imbalances_v2_def forced_imbalances_def dict_values5 dict_items5
        np_mean5 np_std_one_hot)

lemma corrective_v2:
  "find_corrective_with dimension_ingredients_v2 example_env Bitter TooHigh t [''amaro''] =
     [syrup_suggestion ''simple syrup'', syrup_suggestion ''honey'']"
  by (simp add: find_corrective_with_def example_env_def example_profile_def with_taste_def
        empty_profile_def str_lower_def lower_char_def py_sorted_def syrup_suggestion_def)

lemma corrective_v3:
  "find_corrective_with dimension_ingredients_v3 example_env Bitter TooHigh t [''amaro''] =
     [syrup_suggestion ''simple syrup'', syrup_suggestion ''honey'']"
  by (simp add: find_corrective_with_def example_env_def example_profile_def with_taste_def
        empty_profile_def str_lower_def lower_char_def py_sorted_def syrup_suggestion_def)

lemma round_example: "py_round1 u (459 / 50) = 46 / 5"
  by (simp add: py_round1_def Let_def)

lemma amount_bitter: "calculate_adaptive_amount env (25 / 29) (4 / 5) 51 = 46 / 5"
  by (simp add: calculate_adaptive_amount_def raw_amount_def balance_factor_def
        severity_factor_def round_example)

lemma gate_bitter: "should_recommend_changes (25 / 29) t = (True, ''Good cocktail with room for refinement'')"
  by (simp add: should_recommend_changes_def)

lemma recommend_bitter:
  assumes a: "analyze_cocktail example_env ''Bitter Neat'' = Inr (Result a)"
    "overall_balance a = 25 / 29"
    "balance_scores a = \<lparr>sweet = 0, sour = 0, bitter = 1, savory = 0, aromatic = 0\<rparr>"
    "agg_total_volume (aggregated_profile a) = 51"
    "a_ingredients a = [''amaro'']"
  shows "\<exists>r. recommend_with keep dimension_ingredients_v2 example_env ''Bitter Neat'' None = Inr (Result r)
           \<and> recommended r =
               map (\<lambda>s. \<lparr>issue_dimension = Bitter, issue_kind = TooHigh,
                           rec_suggestion = s\<lparr>s_amount := 46 / 5\<rparr>\<rparr>)
                 (take keep [syrup_suggestion ''simple syrup'', syrup_suggestion ''honey''])"
    and "\<exists>r. recommend_with keep dimension_ingredients_v3 example_env ''Bitter Neat'' None = Inr (Result r)
           \<and> recommended r =
               map (\<lambda>s. \<lparr>issue_dimension = Bitter, issue_kind = TooHigh,
                           rec_suggestion = s\<lparr>s_amount := 46 / 5\<rparr>\<rparr>)
                 (take keep [syrup_suggestion ''simple syrup'', syrup_suggestion ''honey''])"
  by (simp_all add: recommend_with_def a gate_bitter detect_bitter corrective_v2 corrective_v3
        dict_values5 np_mean5 amount_bitter)

lemma items_bitter:
  "suggested_items (recommend_improvements_v2 example_env ''Bitter Neat'' None) =
     [(Bitter, ''simple syrup'', 46 / 5), (Bitter, ''honey'', 46 / 5)]"
proof -
  obtain a where a: "analyze_cocktail example_env ''Bitter Neat'' = Inr (Result a)"
    "overall_balance a = 25 / 29"
    "balance_scores a = \<lparr>sweet = 0, sour = 0, bitter = 1, savory = 0, aromatic = 0\<rparr>"
    "agg_total_volume (aggregated_profile a) = 51"
    "a_ingredients a = [''amaro'']"
    using analysis_bitter by blast
  obtain r where r: "recommend_with 3 dimension_ingredients_v2 example_env ''Bitter Neat'' None = Inr (Result r)"
    "recommended r =
               map (\<lambda>s. \<lparr>issue_dimension = Bitter, issue_kind = TooHigh,
                           rec_suggestion = s\<lparr>s_amount := 46 / 5\<rparr>\<rparr>)
                 (take 3 [syrup_suggestion ''simple syrup'', syrup_suggestion ''honey''])"
    using recommend_bitter(1) [OF a, of 3] by blast
  show ?thesis
    by (simp add: suggested_items_def the_result_def recommend_improvements_v2_def r syrup_suggestion_def)
qed

lemma summary_bitter:
  "analysis_summary (analyze_cocktail example_env ''Bitter Neat'') =
     Some (25 / 29, \<lparr>sweet = 0, sour = 0, bitter = 1, savory = 0, aromatic = 0\<rparr>, 51)"
proof -
  obtain a where a: "analyze_cocktail example_env ''Bitter Neat'' = Inr (Result a)"
    "overall_balance a = 25 / 29"
    "balance_scores a = \<lparr>sweet = 0, sour = 0, bitter = 1, savory = 0, aromatic = 0\<rparr>"
    "agg_total_volume (aggregated_profile a) = 51"
    using analysis_bitter by blast
  show ?thesis by (simp add: analysis_summary_def the_result_def a)
qed

text \<open>
  Claim C8 as stated fails where the rounding changes the value.  The cocktail
  \<^verbatim>\<open>'Bitter Neat'\<close> of the data set (51 ml, balance 25/29, bitter one, the rest zero) gets two
  recommendations of 9.2 ml each, while the clamp of the claim is 9.18 ml; likewise
  \<^verbatim>\<open>_calculate_adaptive_amount(0.5, 0.3, 101)\<close> is 12.1 and the clamp is 12.12.
\<close>

theorem adaptive_amount_counterexample:
  "analysis_summary (analyze_cocktail example_env ''Bitter Neat'') =
     Some (25 / 29, \<lparr>sweet = 0, sour = 0, bitter = 1, savory = 0, aromatic = 0\<rparr>, 51)
   \<and> suggested_items (recommend_improvements_v2 example_env ''Bitter Neat'' None) =
     [(Bitter, ''simple syrup'', 46 / 5), (Bitter, ''honey'', 46 / 5)]
   \<and> clamped_amount (25 / 29) \<bar>1 - np_mean [0, 0, 1, 0, 0]\<bar> 51 = 459 / 50
   \<and> calculate_adaptive_amount example_env 0.5 0.3 101 = 12.1
   \<and> clamped_amount 0.5 0.3 101 = 12.12"
proof -
  have c: "clamped_amount (25 / 29) \<bar>1 - np_mean [0, 0, 1, 0, 0]\<bar> 51 = 459 / 50"
    by (simp add: clamped_amount_def raw_amount_def balance_factor_def severity_factor_def np_mean5)
  have d: "clamped_amount 0.5 0.3 101 = 12.12"
    by (simp add: clamped_amount_def raw_amount_def balance_factor_def severity_factor_def)
  have e: "calculate_adaptive_amount example_env 0.5 0.3 101 = 12.1"
    by (simp add: calculate_adaptive_amount_def raw_amount_def balance_factor_def
          severity_factor_def py_round1_def Let_def)
  show ?thesis
    by (intro conjI summary_bitter items_bitter c d e)
qed

theorem adaptive_amount_of_recommendations_witness:
  "\<exists>a r rc. analyze_cocktail example_env ''Bitter Neat'' = Inr (Result a)
     \<and> recommend_improvements_v2 example_env ''Bitter Neat'' None = Inr (Result r)
     \<and> rc \<in> set (recommended r)
     \<and> s_amount (rec_suggestion rc) = 46 / 5
     \<and> (\<exists>k::int. s_amount (rec_suggestion rc) = of_int k / 10)
     \<and> \<bar>s_amount (rec_suggestion rc) - clamped_amount (overall_balance a)
             \<bar>score (balance_scores a) (issue_dimension rc) - np_mean (dict_values (balance_scores a))\<bar>
             (agg_total_volume (aggregated_profile a))\<bar> \<le> 0.05
     \<and> 5 \<le> s_amount (rec_suggestion rc) \<and> s_amount (rec_suggestion rc) \<le> 30"
proof -
  obtain a where a: "analyze_cocktail example_env ''Bitter Neat'' = Inr (Result a)"
    "overall_balance a = 25 / 29"
    "balance_scores a = \<lparr>sweet = 0, sour = 0, bitter = 1, savory = 0, aromatic = 0\<rparr>"
    "agg_total_volume (aggregated_profile a) = 51"
    "a_ingredients a = [''amaro'']"
    using analysis_bitter by blast
  obtain r where r: "recommend_with 3 dimension_ingredients_v2 example_env ''Bitter Neat'' None = Inr (Result r)"
    "recommended r =
               map (\<lambda>s. \<lparr>issue_dimension = Bitter, issue_kind = TooHigh,
                           rec_suggestion = s\<lparr>s_amount := 46 / 5\<rparr>\<rparr>)
                 (take 3 [syrup_suggestion ''simple syrup'', syrup_suggestion ''honey''])"
    using recommend_bitter(1) [OF a, of 3] by blast
  let ?rc = "\<lparr>issue_dimension = Bitter, issue_kind = TooHigh,
               rec_suggestion = (syrup_suggestion ''honey'')\<lparr>s_amount := 46 / 5\<rparr>\<rparr>"
  have r2: "recommend_improvements_v2 example_env ''Bitter Neat'' None = Inr (Result r)"
    using r(1) by (simp add: recommend_improvements_v2_def)
  have m: "?rc \<in> set (recommended r)" by (simp add: r(2))
  have amt: "s_amount (rec_suggestion ?rc) = 46 / 5" by simp
  note t = adaptive_amount_of_recommendations [OF a(1) disjI1 [OF r2] m]
  show ?thesis
    using a(1) r2 m amt t by blast
qed

section \<open>Selecting the best candidate\<close>

lemma first_maximal_split:
  assumes "xs = ys @ m # zs" "\<forall>y \<in> set ys. f y < f m" "\<forall>z \<in> set zs. f z \<le> f m"
  shows "first_maximal f xs = Some m"
proof -
  let ?P = "\<lambda>x. list_all (\<lambda>y. f y \<le> f x) xs"
  have pm: "?P m" using assms by (auto simp: list_all_iff less_imp_le)
  have py: "\<And>y. y \<in> set ys \<Longrightarrow> \<not> ?P y"
    using assms by (auto simp: list_all_iff not_le)
  have "List.find ?P (ys @ m # zs) = Some m"
    using py pm by (induction ys) auto
  then show ?thesis unfolding first_maximal_def assms(1) [symmetric] .
qed

lemma py_max_from_split:
  "\<exists>ys zs. b # xs = ys @ py_max_from f b xs # zs
     \<and> (\<forall>y \<in> set ys. f y < f (py_max_from f b xs))
     \<and> (\<forall>z \<in> set zs. f z \<le> f (py_max_from f b xs))"
proof (induction xs arbitrary: b)
  case Nil
  show ?case by (intro exI [of _ "[]"]) simp
next
  case (Cons x xs)
  show ?case
  proof (cases "f x > f b")
    case True
    define m where "m = py_max_from f x xs"
    have eq: "py_max_from f b (x # xs) = m" using True by (simp add: m_def)
    obtain ys zs where d: "x # xs = ys @ m # zs" "\<forall>y \<in> set ys. f y < f m" "\<forall>z \<in> set zs. f z \<le> f m"
      using Cons.IH [of x] unfolding m_def by blast
    have "x \<in> set (ys @ m # zs)" using d(1) by (metis list.set_intros(1))
    then have "f x \<le> f m" using d(2,3) by (auto simp: less_imp_le)
    then have bm: "f b < f m" using True by linarith
    have A: "b # x # xs = (b # ys) @ m # zs" using d(1) by simp
    have B: "\<forall>y \<in> set (b # ys). f y < f m" using bm d(2) by simp
    show ?thesis unfolding eq
      by (rule exI [of _ "b # ys"], rule exI [of _ zs]) (intro conjI A B d(3))
  next
    case False
    define m where "m = py_max_from f b xs"
    have eq: "py_max_from f b (x # xs) = m" using False by (simp add: m_def)
    obtain ys zs where d: "b # xs = ys @ m # zs" "\<forall>y \<in> set ys. f y < f m" "\<forall>z \<in> set zs. f z \<le> f m"
      using Cons.IH [of b] unfolding m_def by blast
    show ?thesis
    proof (cases ys)
      case Nil
      then have e: "m = b" "zs = xs" using d(1) by simp_all
      have A: "b # x # xs = [] @ m # (x # xs)" using e by simp
      have B: "\<forall>y \<in> set []. f y < f m" by simp
      have C: "\<forall>z \<in> set (x # xs). f z \<le> f m" using False d(3) e by auto
      show ?thesis unfolding eq
        by (rule exI [of _ "[]"], rule exI [of _ "x # xs"]) (intro conjI A B C)
    next
      case (Cons y ys')
      then have e: "y = b" "xs = ys' @ m # zs" using d(1) by simp_all
      have "f b < f m" using d(2) Cons e by simp
      then have xm: "f x < f m" using False by linarith
      have A: "b # x # xs = (b # x # ys') @ m # zs" using e by simp
      have B: "\<forall>y \<in> set (b # x # ys'). f y < f m" using xm d(2) Cons e by auto
      show ?thesis unfolding eq
        by (rule exI [of _ "b # x # ys'"], rule exI [of _ zs]) (intro conjI A B d(3))
    qed
  qed
qed

lemma py_max_key_first_maximal:
  "xs \<noteq> [] \<Longrightarrow> \<exists>m. py_max_key f xs = Inr m \<and> first_maximal f xs = Some m"
proof -
  assume "xs \<noteq> []"
  then obtain b rest where x: "xs = b # rest" by (cases xs) auto
  obtain ys zs where "b # rest = ys @ py_max_from f b rest # zs"
     "\<forall>y \<in> set ys. f y < f (py_max_from f b rest)" "\<forall>z \<in> set zs. f z \<le> f (py_max_from f b rest)"
    using py_max_from_split [of b rest f] by blast
  then have "first_maximal f xs = Some (py_max_from f b rest)"
    using first_maximal_split [of xs ys "py_max_from f b rest" zs f] x by simp
  then show ?thesis by (simp add: py_max_key_def x)
qed

lemma first_maximal_props:
  assumes "first_maximal f xs = Some m"
  shows "m \<in> set xs" "\<forall>x \<in> set xs. f x \<le> f m"
  using assms unfolding first_maximal_def
  by (auto simp: find_Some_iff list_all_iff)

lemma first_maximal_earliest:
  assumes "first_maximal f xs = Some m" "sorted_wrt (<) (map r xs)" "c \<in> set xs" "f c = f m"
  shows "(r m :: nat) \<le> r c"
proof -
  obtain i where i: "i < length xs" "xs ! i = m"
      "\<forall>j < i. \<not> list_all (\<lambda>y. f y \<le> f (xs ! j)) xs"
    using assms(1) unfolding first_maximal_def by (auto simp: find_Some_iff)
  obtain k where k: "k < length xs" "xs ! k = c" using assms(3) by (auto simp: in_set_conv_nth)
  have mx: "\<forall>x \<in> set xs. f x \<le> f m" using first_maximal_props(2) [OF assms(1)] .
  have "\<not> k < i"
  proof
    assume "k < i"
    then have "\<not> list_all (\<lambda>y. f y \<le> f c) xs" using i(3) k by auto
    then show False using mx assms(4) by (auto simp: list_all_iff)
  qed
  then have "i \<le> k" by simp
  then show ?thesis
  proof (cases "i = k")
    case True then show ?thesis using i k by simp
  next
    case False
    then have "i < k" using \<open>i \<le> k\<close> by simp
    then have "map r xs ! i < map r xs ! k"
      using assms(2) k(1) by (simp add: sorted_wrt_iff_nth_less)
    then show ?thesis using i k by simp
  qed
qed

lemma hd_insort_key:
  "hd (insort_key g x ys) = (if ys = [] \<or> g x \<le> g (hd ys) then x else hd ys)"
  by (cases ys) auto

lemma hd_sort_key_split:
  fixes f :: "'a \<Rightarrow> real"
  shows "xs \<noteq> [] \<Longrightarrow> \<exists>ys zs. xs = ys @ hd (sort_key (\<lambda>x. - f x) xs) # zs
     \<and> (\<forall>y \<in> set ys. f y < f (hd (sort_key (\<lambda>x. - f x) xs)))
     \<and> (\<forall>z \<in> set zs. f z \<le> f (hd (sort_key (\<lambda>x. - f x) xs)))"
proof (induction xs)
  case Nil
  then show ?case by simp
next
  case (Cons x xs)
  show ?case
  proof (cases "xs = []")
    case True
    then show ?thesis by (intro exI [of _ "[]"]) simp
  next
    case False
    define h where "h = hd (sort_key (\<lambda>x. - f x) xs)"
    obtain ys zs where d: "xs = ys @ h # zs" "\<forall>y \<in> set ys. f y < f h" "\<forall>z \<in> set zs. f z \<le> f h"
      using Cons.IH [OF False] unfolding h_def by blast
    have "\<forall>y \<in> set (ys @ h # zs). f y \<le> f h" using d(2,3) by (auto simp: less_imp_le)
    then have all_le: "\<forall>y \<in> set xs. f y \<le> f h" using d(1) by simp
    have "length (sort_key (\<lambda>x. - f x) xs) = length xs" by simp
    then have ne: "sort_key (\<lambda>x. - f x) xs \<noteq> []" using False by (metis length_0_conv)
    have hd_eq: "hd (sort_key (\<lambda>x. - f x) (x # xs)) = (if f h \<le> f x then x else h)"
      using ne by (simp add: hd_insort_key h_def)
    show ?thesis
    proof (cases "f h \<le> f x")
      case True
      have eq: "hd (sort_key (\<lambda>x. - f x) (x # xs)) = x" using hd_eq True by simp
      have A: "x # xs = [] @ x # xs" by simp
      have B: "\<forall>y \<in> set []. f y < f x" by simp
      have C: "\<forall>z \<in> set xs. f z \<le> f x" using all_le True by auto
      show ?thesis unfolding eq
        by (rule exI [of _ "[]"], rule exI [of _ xs]) (intro conjI A B C)
    next
      case False
      have eq: "hd (sort_key (\<lambda>x. - f x) (x # xs)) = h" using hd_eq False by simp
      have A: "x # xs = (x # ys) @ h # zs" using d(1) by simp
      have B: "\<forall>y \<in> set (x # ys). f y < f h" using False d(2) by auto
      show ?thesis unfolding eq
        by (rule exI [of _ "x # ys"], rule exI [of _ zs]) (intro conjI A B d(3))
    qed
  qed
qed

lemma py_sorted_reverse_first:
  fixes f :: "'a \<Rightarrow> real"
  assumes "xs \<noteq> []"
  shows "\<exists>best rest. py_sorted f True xs = best # rest \<and> first_maximal f xs = Some best"
proof -
  let ?s = "sort_key (\<lambda>x. - f x) xs"
  have "length ?s = length xs" by simp
  then have ne: "?s \<noteq> []" using assms by (metis length_0_conv)
  obtain ys zs where "xs = ys @ hd ?s # zs" "\<forall>y \<in> set ys. f y < f (hd ?s)" "\<forall>z \<in> set zs. f z \<le> f (hd ?s)"
    using hd_sort_key_split [OF assms, of f] by blast
  then have "first_maximal f xs = Some (hd ?s)" by (rule first_maximal_split)
  moreover have "py_sorted f True xs = hd ?s # tl ?s" using ne by (simp add: py_sorted_def)
  ultimately show ?thesis by blast
qed

lemma test_candidates_step:
  "\<exists>front. test_candidates env n ob ((i, r) # rest) = front @ test_candidates env n ob rest
     \<and> length front \<le> 1
     \<and> (\<forall>c \<in> set front. rank c = i + 1
            \<and> improvement c = cand_new_balance c - cand_original_balance c
            \<and> cand_original_balance c = ob)"
proof (cases "modify_cocktail env n
                [Add (s_ingredient (rec_suggestion r)) (Some (s_amount (rec_suggestion r)))]")
  case (Inl e)
  then show ?thesis by (intro exI [of _ "[]"]) (simp add: Let_def)
next
  case (Inr rep)
  show ?thesis
  proof (cases rep)
    case (ErrorDict msg)
    then show ?thesis using Inr by (intro exI [of _ "[]"]) (simp add: Let_def)
  next
    case (Result res)
    then show ?thesis using Inr
      by (intro exI [of _ "[hd (test_candidates env n ob ((i, r) # rest))]"]) (simp add: Let_def)
  qed
qed

lemma test_candidates_ranks:
  "sorted_wrt (<) (map fst ixs) \<Longrightarrow>
     sorted_wrt (<) (map rank (test_candidates env n ob ixs))
     \<and> (\<forall>c \<in> set (test_candidates env n ob ixs). \<exists>i \<in> set (map fst ixs). rank c = i + 1)"
proof (induction ixs)
  case Nil
  then show ?case by simp
next
  case (Cons p rest)
  obtain i r where p: "p = (i, r)" by (cases p)
  obtain front where f: "test_candidates env n ob ((i, r) # rest) = front @ test_candidates env n ob rest"
      "\<forall>c \<in> set front. rank c = i + 1" "length front \<le> 1"
    using test_candidates_step [of env n ob i r rest] by blast
  have s: "sorted_wrt (<) (map fst rest)" "\<forall>j \<in> set (map fst rest). i < j"
    using Cons.prems p by auto
  have ih: "sorted_wrt (<) (map rank (test_candidates env n ob rest))"
     "\<forall>c \<in> set (test_candidates env n ob rest). \<exists>j \<in> set (map fst rest). rank c = j + 1"
    using Cons.IH [OF s(1)] by blast+
  have gt: "\<forall>c \<in> set (test_candidates env n ob rest). i + 1 < rank c"
    using ih(2) s(2) by fastforce
  have fs: "sorted_wrt (<) (map rank front)"
    using f(3) by (cases front) (auto simp: le_Suc_eq)
  have A: "sorted_wrt (<) (map rank (front @ test_candidates env n ob rest))"
    using fs ih(1) gt f(2) by (auto simp: sorted_wrt_append)
  have B: "\<forall>c \<in> set (front @ test_candidates env n ob rest). \<exists>j \<in> set (map fst (p # rest)). rank c = j + 1"
    using f(2) ih(2) p by auto
  show ?case unfolding p using A B f(1) p by simp
qed

lemma test_candidates_improvement:
  "list_all (\<lambda>c. improvement c = cand_new_balance c - cand_original_balance c
                \<and> cand_original_balance c = ob)
     (test_candidates env n ob ixs)"
proof (induction ixs)
  case Nil
  then show ?case by simp
next
  case (Cons p rest)
  obtain i r where p: "p = (i, r)" by (cases p)
  obtain front where f: "test_candidates env n ob ((i, r) # rest) = front @ test_candidates env n ob rest"
      "\<forall>c \<in> set front. improvement c = cand_new_balance c - cand_original_balance c
            \<and> cand_original_balance c = ob"
    using test_candidates_step [of env n ob i r rest] by blast
  show ?case unfolding p f(1) using f(2) Cons.IH by (auto simp: list_all_iff)
qed

lemma rank_scored:
  "list_all (\<lambda>c. combined_score c = v4_improvement c * plausibility c
                \<and> plausibility c = get_plausibility_score env (v4_ingredient c))
     (map (add_plausibility env) cs)"
  by (induction cs) (simp_all add: add_plausibility_def Let_def)

lemma zip_upt_sorted: "sorted_wrt (<) (map fst (zip [0..<length xs] xs))"
  by simp

text \<open>
  Claim C4.  Whenever at least one candidate was simulated, \<^verbatim>\<open>find_best_modification\<close> of V3
  returns the selection whose best candidate is the first one of maximal improvement
  (\<open>new_balance - original_balance\<close>): no candidate improves more, and a candidate that
  improves as much has no lower rank.  With plausibility weighting,
  \<^verbatim>\<open>rank_recommendations_with_plausibility\<close> of V4 puts first the first candidate of maximal
  \<open>combined_score = improvement * plausibility\<close>.
\<close>

theorem best_candidate_is_selected:
  assumes a: "analyze_cocktail env n = Inr (Result orig)"
    and r: "recommend_improvements_v3 env n None = Inr (Result all_recs)"
    and t: "tested = py_slice_to max_candidates (recommended all_recs)"
    and c: "candidates = test_candidates env n (overall_balance orig) (zip [0..<length tested] tested)"
    and ne: "candidates \<noteq> []"
    and v: "v4_candidates \<noteq> []"
  shows "(\<exists>best. find_best_modification_v3 env n max_candidates =
             Inr (Result (Best \<lparr>sel_cocktail = n, sel_original_balance = overall_balance orig,
                                 best_modification = best, all_candidates = candidates,
                                 tested_count = length candidates\<rparr>))
           \<and> first_maximal improvement candidates = Some best
           \<and> best \<in> set candidates
           \<and> (\<forall>c \<in> set candidates. improvement c \<le> improvement best)
           \<and> (\<forall>c \<in> set candidates. improvement c = improvement best \<longrightarrow> rank best \<le> rank c)
           \<and> list_all (\<lambda>c. improvement c = cand_new_balance c - cand_original_balance c
                            \<and> cand_original_balance c = overall_balance orig) candidates)
       \<and> (\<exists>best rest. rank_recommendations_with_plausibility env v4_candidates = best # rest
           \<and> first_maximal combined_score (map (add_plausibility env) v4_candidates) = Some best
           \<and> list_all (\<lambda>c. combined_score c = v4_improvement c * plausibility c
                            \<and> plausibility c = get_plausibility_score env (v4_ingredient c))
                 (map (add_plausibility env) v4_candidates))"
proof -
  obtain best where b: "py_max_key improvement candidates = Inr best"
      "first_maximal improvement candidates = Some best"
    using py_max_key_first_maximal [OF ne] by blast
  have recs: "recommended all_recs \<noteq> []"
  proof
    assume "recommended all_recs = []"
    then have "tested = []" using t by (simp add: py_slice_to_def)
    then show False using c ne by simp
  qed
  have res: "find_best_modification_v3 env n max_candidates =
             Inr (Result (Best \<lparr>sel_cocktail = n, sel_original_balance = overall_balance orig,
                                 best_modification = best, all_candidates = candidates,
                                 tested_count = length candidates\<rparr>))"
    using a r recs ne b(1) t [symmetric] c [symmetric]
    by (simp add: find_best_modification_v3_def Let_def)
  have srt: "sorted_wrt (<) (map rank candidates)"
    unfolding c using test_candidates_ranks [OF zip_upt_sorted] by blast
  have tie: "\<forall>c \<in> set candidates. improvement c = improvement best \<longrightarrow> rank best \<le> rank c"
    using first_maximal_earliest [OF b(2) srt] by blast
  have imp: "list_all (\<lambda>c. improvement c = cand_new_balance c - cand_original_balance c
                            \<and> cand_original_balance c = overall_balance orig) candidates"
    unfolding c by (rule test_candidates_improvement)
  have part3: "\<exists>best. find_best_modification_v3 env n max_candidates =
             Inr (Result (Best \<lparr>sel_cocktail = n, sel_original_balance = overall_balance orig,
                                 best_modification = best, all_candidates = candidates,
                                 tested_count = length candidates\<rparr>))
           \<and> first_maximal improvement candidates = Some best
           \<and> best \<in> set candidates
           \<and> (\<forall>c \<in> set candidates. improvement c \<le> improvement best)
           \<and> (\<forall>c \<in> set candidates. improvement c = improvement best \<longrightarrow> rank best \<le> rank c)
           \<and> list_all (\<lambda>c. improvement c = cand_new_balance c - cand_original_balance c
                            \<and> cand_original_balance c = overall_balance orig) candidates"
    by (rule exI [of _ best])
       (intro conjI res b(2) first_maximal_props [OF b(2)] tie imp)
  have ne4: "map (add_plausibility env) v4_candidates \<noteq> []" using v by simp
  obtain vb rest where s: "py_sorted combined_score True (map (add_plausibility env) v4_candidates) = vb # rest"
      "first_maximal combined_score (map (add_plausibility env) v4_candidates) = Some vb"
    using py_sorted_reverse_first [OF ne4, of combined_score] by blast
  have part4: "\<exists>best rest. rank_recommendations_with_plausibility env v4_candidates = best # rest
           \<and> first_maximal combined_score (map (add_plausibility env) v4_candidates) = Some best
           \<and> list_all (\<lambda>c. combined_score c = v4_improvement c * plausibility c
                            \<and> plausibility c = get_plausibility_score env (v4_ingredient c))
                 (map (add_plausibility env) v4_candidates)"
    unfolding rank_recommendations_with_plausibility_def
    by (rule exI [of _ vb], rule exI [of _ rest]) (intro conjI s rank_scored)
  show ?thesis by (intro conjI part3 part4)
qed

subsection \<open>Running the selector on the data set\<close>

lemma modify_syrup:
  "ing = ''simple syrup'' \<or> ing = ''honey'' \<Longrightarrow>
   \<exists>res. modify_cocktail example_env ''Bitter Neat'' [Add ing (Some (46 / 5))] = Inr (Result res)
     \<and> st_overall_balance (modified res) = 2265025 / 2510129"
  by (auto simp: modify_cocktail_def analyze_impact_def eval_defs Let_def list_pop_def)

lemma candidates_bitter:
  "test_candidates example_env ''Bitter Neat'' (25 / 29)
     [(0, syrup_recommendation ''simple syrup''), (1, syrup_recommendation ''honey'')] =
     [syrup_candidate 1 ''simple syrup'', syrup_candidate 2 ''honey'']"
proof -
  obtain r1 where r1: "modify_cocktail example_env ''Bitter Neat'' [Add ''simple syrup'' (Some (46 / 5))] = Inr (Result r1)"
     "st_overall_balance (modified r1) = 2265025 / 2510129"
    using modify_syrup [of "''simple syrup''"] by blast
  obtain r2 where r2: "modify_cocktail example_env ''Bitter Neat'' [Add ''honey'' (Some (46 / 5))] = Inr (Result r2)"
     "st_overall_balance (modified r2) = 2265025 / 2510129"
    using modify_syrup [of "''honey''"] by blast
  show ?thesis
    by (simp add: syrup_recommendation_def syrup_suggestion_def syrup_candidate_def r1 r2 Let_def)
qed

lemma plaus: "get_plausibility_score example_env ''Tomato Juice'' = 0.1"
   "get_plausibility_score example_env ''honey '' = 0.9"
  by (simp_all add: get_plausibility_score_def example_env_def str_lower_def lower_char_def
        str_strip_def is_space_def)

lemma ranked_example:
  "map v4_ingredient (rank_recommendations_with_plausibility example_env example_v4_candidates)
     = [''honey '', ''Tomato Juice'']"
  by (simp add: rank_recommendations_with_plausibility_def example_v4_candidates_def
        add_plausibility_def plaus py_sorted_def Let_def)

theorem best_candidate_is_selected_witness:
  "the_result (find_best_modification_v3 example_env ''Bitter Neat'' 5) =
     Some (Best \<lparr>sel_cocktail = ''Bitter Neat'', sel_original_balance = 25 / 29,
                 best_modification = syrup_candidate 1 ''simple syrup'',
                 all_candidates = [syrup_candidate 1 ''simple syrup'', syrup_candidate 2 ''honey''],
                 tested_count = 2\<rparr>)
   \<and> improvement (syrup_candidate 1 ''simple syrup'') = improvement (syrup_candidate 2 ''honey'')
   \<and> example_v4_candidates \<noteq> []
   \<and> map v4_ingredient (rank_recommendations_with_plausibility example_env example_v4_candidates)
       = [''honey '', ''Tomato Juice'']
   \<and> (\<exists>best. first_maximal combined_score
                  (map (add_plausibility example_env) example_v4_candidates) = Some best
              \<and> v4_ingredient best = ''honey '')"
proof -
  obtain a where a: "analyze_cocktail example_env ''Bitter Neat'' = Inr (Result a)"
    "overall_balance a = 25 / 29"
    "balance_scores a = \<lparr>sweet = 0, sour = 0, bitter = 1, savory = 0, aromatic = 0\<rparr>"
    "agg_total_volume (aggregated_profile a) = 51"
    "a_ingredients a = [''amaro'']"
    using analysis_bitter by blast
  obtain r where r: "recommend_with 5 dimension_ingredients_v3 example_env ''Bitter Neat'' None = Inr (Result r)"
    "recommended r =
               map (\<lambda>s. \<lparr>issue_dimension = Bitter, issue_kind = TooHigh,
                           rec_suggestion = s\<lparr>s_amount := 46 / 5\<rparr>\<rparr>)
                 (take 5 [syrup_suggestion ''simple syrup'', syrup_suggestion ''honey''])"
    using recommend_bitter(2) [OF a, of 5] by blast
  have r3: "recommend_improvements_v3 example_env ''Bitter Neat'' None = Inr (Result r)"
    using r(1) by (simp add: recommend_improvements_v3_def)
  have recs: "recommended r = [syrup_recommendation ''simple syrup'', syrup_recommendation ''honey'']"
    by (simp add: r(2) syrup_recommendation_def)
  let ?tested = "py_slice_to 5 (recommended r)"
  let ?cands = "test_candidates example_env ''Bitter Neat'' (overall_balance a)
                  (zip [0..<length ?tested] ?tested)"
  have tested: "?tested = [syrup_recommendation ''simple syrup'', syrup_recommendation ''honey'']"
    by (simp add: recs py_slice_to_def)
  have upt2: "[0..<2] = [0, Suc 0]" by (simp add: upt_rec)
  have cands: "?cands = [syrup_candidate 1 ''simple syrup'', syrup_candidate 2 ''honey'']"
    using candidates_bitter by (simp only: tested a(2)) (simp add: upt2)
  have ne: "?cands \<noteq> []" by (simp only: cands) simp
  have v: "example_v4_candidates \<noteq> []" by (simp add: example_v4_candidates_def)
  note t = best_candidate_is_selected [OF a(1) r3 refl refl ne v]
  have fm: "first_maximal improvement ?cands = Some (syrup_candidate 1 ''simple syrup'')"
    by (simp only: cands) (simp add: first_maximal_def syrup_candidate_def)
  obtain best where b: "find_best_modification_v3 example_env ''Bitter Neat'' 5 =
             Inr (Result (Best \<lparr>sel_cocktail = ''Bitter Neat'', sel_original_balance = overall_balance a,
                                 best_modification = best, all_candidates = ?cands,
                                 tested_count = length ?cands\<rparr>))"
      "first_maximal improvement ?cands = Some best"
    using t by blast
  have best: "best = syrup_candidate 1 ''simple syrup''" using b(2) fm by simp
  have c2: "test_candidates example_env ''Bitter Neat'' (25 / 29)
                  (zip [0..<length ?tested] ?tested) =
             [syrup_candidate 1 ''simple syrup'', syrup_candidate 2 ''honey'']"
    using cands unfolding a(2) .
  have A: "the_result (find_best_modification_v3 example_env ''Bitter Neat'' 5) =
     Some (Best \<lparr>sel_cocktail = ''Bitter Neat'', sel_original_balance = 25 / 29,
                 best_modification = syrup_candidate 1 ''simple syrup'',
                 all_candidates = [syrup_candidate 1 ''simple syrup'', syrup_candidate 2 ''honey''],
                 tested_count = 2\<rparr>)"
    by (simp only: b(1) best a(2) c2) (simp add: the_result_def)
  have B: "improvement (syrup_candidate 1 ''simple syrup'') = improvement (syrup_candidate 2 ''honey'')"
    by (simp add: syrup_candidate_def)
  obtain vb rest where vb: "rank_recommendations_with_plausibility example_env example_v4_candidates = vb # rest"
     "first_maximal combined_score (map (add_plausibility example_env) example_v4_candidates) = Some vb"
    using t by blast
  have "v4_ingredient vb = ''honey ''" using ranked_example by (simp add: vb(1))
  then have D: "\<exists>best. first_maximal combined_score
                  (map (add_plausibility example_env) example_v4_candidates) = Some best
              \<and> v4_ingredient best = ''honey ''"
    using vb(2) by blast
  show ?thesis by (intro conjI A B v ranked_example D)
qed

section \<open>The worked example of the aggregation\<close>

lemma aggregate_two:
  assumes "num_molecules pa > 0" "num_molecules pb > 0"
  shows "aggregated_taste_of (aggregate_profiles [pa, pb] fifty_fifty) =
           Some (add_weighted (add_weighted zero_taste (taste_scores pa) (1 / 2)) (taste_scores pb) (1 / 2))"
  using assms
  by (simp add: aggregated_taste_of_def aggregate_profiles_def effective_volumes_def fifty_fifty_def
        measure_value_def py_truediv_def np_average_def Let_def)

text \<open>
  Claim C2, as the code has it.  Two ingredients with molecular data, 50 ml each, one with
  sweet 0.9 and one with sour 0.9 and all other scores 0, aggregate to sweet 0.45, sour 0.45
  and 0 elsewhere.  The variance of these five values, as \<^verbatim>\<open>np.var\<close> computes it, is 0.0486
  (0.081 is the mean of their squares), and the overall balance is \<open>1 / 1.0486\<close>, about 0.9537.
\<close>

theorem worked_example:
  assumes "taste_scores pa = \<lparr>sweet = 0.9, sour = 0, bitter = 0, savory = 0, aromatic = 0\<rparr>"
    and "taste_scores pb = \<lparr>sweet = 0, sour = 0.9, bitter = 0, savory = 0, aromatic = 0\<rparr>"
    and "num_molecules pa > 0" and "num_molecules pb > 0"
  shows "aggregated_taste_of (aggregate_profiles [pa, pb] fifty_fifty) =
           Some \<lparr>sweet = 0.45, sour = 0.45, bitter = 0, savory = 0, aromatic = 0\<rparr>
       \<and> np_var (dict_values \<lparr>sweet = 0.45, sour = 0.45, bitter = 0, savory = 0, aromatic = 0\<rparr>) = 0.0486
       \<and> np_mean (map (\<lambda>x. x * x)
            (dict_values \<lparr>sweet = 0.45, sour = 0.45, bitter = 0, savory = 0, aromatic = 0\<rparr>)) = 0.081
       \<and> compute_overall_balance \<lparr>sweet = 0.45, sour = 0.45, bitter = 0, savory = 0, aromatic = 0\<rparr>
           = 1 / (1 + 0.0486)
       \<and> \<bar>compute_overall_balance \<lparr>sweet = 0.45, sour = 0.45, bitter = 0, savory = 0, aromatic = 0\<rparr>
            - 0.9537\<bar> < 0.0001"
proof -
  have A: "aggregated_taste_of (aggregate_profiles [pa, pb] fifty_fifty) =
           Some \<lparr>sweet = 0.45, sour = 0.45, bitter = 0, savory = 0, aromatic = 0\<rparr>"
    by (simp add: aggregate_two [OF assms(3,4)] assms(1,2) add_weighted_def zero_taste_def)
  have B: "np_var (dict_values \<lparr>sweet = 0.45, sour = 0.45, bitter = 0, savory = 0, aromatic = 0\<rparr>) = 0.0486"
    by (simp add: dict_values5 np_var5 power2_eq_square)
  have C: "np_mean (map (\<lambda>x. x * x)
            (dict_values \<lparr>sweet = 0.45, sour = 0.45, bitter = 0, savory = 0, aromatic = 0\<rparr>)) = 0.081"
    by (simp add: dict_values5 np_mean_def)
  have D: "compute_overall_balance \<lparr>sweet = 0.45, sour = 0.45, bitter = 0, savory = 0, aromatic = 0\<rparr>
           = 1 / (1 + 0.0486)"
    by (simp add: compute_overall_balance_def dict_values5 np_var5 power2_eq_square)
  have E: "\<bar>compute_overall_balance \<lparr>sweet = 0.45, sour = 0.45, bitter = 0, savory = 0, aromatic = 0\<rparr>
            - 0.9537\<bar> < 0.0001"
    unfolding D by (simp add: abs_if)
  show ?thesis by (intro conjI A B C D E)
qed

theorem worked_example_witness:
  "taste_scores example_sweet = \<lparr>sweet = 0.9, sour = 0, bitter = 0, savory = 0, aromatic = 0\<rparr>
   \<and> taste_scores example_sour = \<lparr>sweet = 0, sour = 0.9, bitter = 0, savory = 0, aromatic = 0\<rparr>
   \<and> num_molecules example_sweet > 0 \<and> num_molecules example_sour > 0
   \<and> aggregated_taste_of (aggregate_profiles [example_sweet, example_sour] fifty_fifty) =
           Some \<lparr>sweet = 0.45, sour = 0.45, bitter = 0, savory = 0, aromatic = 0\<rparr>
   \<and> compute_overall_balance \<lparr>sweet = 0.45, sour = 0.45, bitter = 0, savory = 0, aromatic = 0\<rparr>
           = 5000 / 5243"
proof -
  have h: "taste_scores example_sweet = \<lparr>sweet = 0.9, sour = 0, bitter = 0, savory = 0, aromatic = 0\<rparr>"
     "taste_scores example_sour = \<lparr>sweet = 0, sour = 0.9, bitter = 0, savory = 0, aromatic = 0\<rparr>"
     "num_molecules example_sweet > 0" "num_molecules example_sour > 0"
    by (simp_all add: example_sweet_def example_sour_def with_taste_def)
  note t = worked_example [OF h]
  have "compute_overall_balance \<lparr>sweet = 0.45, sour = 0.45, bitter = 0, savory = 0, aromatic = 0\<rparr>
           = 5000 / 5243"
    using t by simp
  then show ?thesis using h t by blast
qed

text \<open>
  Claim C2 as stated fails on its own input: the variance is 0.0486, not 0.081, and the
  balance is \<open>5000 / 5243\<close>, which is neither \<open>1 / 1.081\<close> nor within 0.028 of 0.925.
\<close>

theorem worked_example_counterexample:
  "aggregated_taste_of (aggregate_profiles [example_sweet, example_sour] fifty_fifty) =
           Some \<lparr>sweet = 0.45, sour = 0.45, bitter = 0, savory = 0, aromatic = 0\<rparr>
   \<and> np_var (dict_values \<lparr>sweet = 0.45, sour = 0.45, bitter = 0, savory = 0, aromatic = 0\<rparr>) \<noteq> 0.081
   \<and> np_var (dict_values \<lparr>sweet = 0.45, sour = 0.45, bitter = 0, savory = 0, aromatic = 0\<rparr>) = 0.0486
   \<and> compute_overall_balance \<lparr>sweet = 0.45, sour = 0.45, bitter = 0, savory = 0, aromatic = 0\<rparr>
        \<noteq> 1 / (1 + 0.081)
   \<and> \<not> \<bar>compute_overall_balance \<lparr>sweet = 0.45, sour = 0.45, bitter = 0, savory = 0, aromatic = 0\<rparr>
            - 0.925\<bar> < 0.028"
proof -
  have A: "aggregated_taste_of (aggregate_profiles [example_sweet, example_sour] fifty_fifty) =
           Some \<lparr>sweet = 0.45, sour = 0.45, bitter = 0, savory = 0, aromatic = 0\<rparr>"
    by (simp add: aggregate_two example_sweet_def example_sour_def with_taste_def
          add_weighted_def zero_taste_def)
  have B: "np_var (dict_values \<lparr>sweet = 0.45, sour = 0.45, bitter = 0, savory = 0, aromatic = 0\<rparr>) = 0.0486"
    by (simp add: dict_values5 np_var5 power2_eq_square)
  have B': "np_var (dict_values \<lparr>sweet = 0.45, sour = 0.45, bitter = 0, savory = 0, aromatic = 0\<rparr>) \<noteq> 0.081"
    unfolding B by simp
  have D: "compute_overall_balance \<lparr>sweet = 0.45, sour = 0.45, bitter = 0, savory = 0, aromatic = 0\<rparr>
           = 5000 / 5243"
    by (simp add: compute_overall_balance_def dict_values5 np_var5 power2_eq_square)
  have E: "compute_overall_balance \<lparr>sweet = 0.45, sour = 0.45, bitter = 0, savory = 0, aromatic = 0\<rparr>
        \<noteq> 1 / (1 + 0.081)"
    unfolding D by simp
  have F: "\<not> \<bar>compute_overall_balance \<lparr>sweet = 0.45, sour = 0.45, bitter = 0, savory = 0, aromatic = 0\<rparr>
            - 0.925\<bar> < 0.028"
    unfolding D by (simp add: abs_if)
  show ?thesis by (intro conjI A B' B E F)
qed

section \<open>The volume weights and the degenerate aggregation\<close>

lemma effective_total_nonzero:
  "profiles \<noteq> [] \<Longrightarrow> snd (effective_volumes profiles ms) \<noteq> 0"
  by (simp add: effective_volumes_def Let_def)

lemma zip_weights:
  "length ms = length ps \<Longrightarrow> c \<noteq> 0 \<Longrightarrow>
     map (\<lambda>(p, volume). py_truediv volume c) (zip ps (map measure_value ms)) =
     map (\<lambda>m. Inr (measure_value m / c)) ms"
proof (induction ms arbitrary: ps)
  case Nil
  then show ?case by simp
next
  case (Cons m ms)
  then obtain q qs where "ps = q # qs" "length ms = length qs" by (cases ps) auto
  then show ?case using Cons.IH [of qs] Cons.prems(2) by (simp add: py_truediv_def)
qed

lemma sum_list_divide:
  "sum_list (map (\<lambda>m. measure_value m / c) ms) = sum_list (map measure_value ms) / c"
  by (induction ms) (simp_all add: add_divide_distrib)

lemma volume_weights_positive_total:
  assumes "length ms = length profiles" and "sum_list (map measure_value ms) \<noteq> 0"
  shows "volume_weights profiles ms =
           map (\<lambda>m. Inr (measure_value m / sum_list (map measure_value ms))) ms
       \<and> sum_list (map (\<lambda>m. measure_value m / sum_list (map measure_value ms)) ms) = 1"
  using zip_weights [OF assms] assms(2)
  by (simp add: volume_weights_def effective_volumes_def Let_def sum_list_divide)

lemma volume_weights_zero_total:
  assumes "length ms = length profiles" and "sum_list (map measure_value ms) = 0" and "profiles \<noteq> []"
  shows "volume_weights profiles ms = replicate (length profiles) (Inr (1 / real (length profiles)))"
proof -
  have n: "real (length profiles) \<noteq> 0" using assms(3) by simp
  have "map (\<lambda>(p, volume). py_truediv volume c) (zip ps (replicate (length ps) 1)) =
        replicate (length ps) (py_truediv 1 c)" for c and ps :: "profile list"
    by (induction ps) simp_all
  then show ?thesis using assms(2) n
    by (simp add: volume_weights_def effective_volumes_def Let_def py_truediv_def)
qed

lemma aggregate_taste_total:
  "tv \<noteq> 0 \<Longrightarrow> \<exists>t. aggregate_taste tv accum pvs = Inr t"
  by (induction tv accum pvs rule: aggregate_taste.induct) (simp_all add: py_truediv_def)

lemma no_molecules_raises:
  assumes "profiles \<noteq> []" and "\<forall>p \<in> set profiles. num_molecules p = 0"
  shows "aggregate_profiles profiles ms = Inl ZeroDivisionError"
proof -
  obtain volumes tv where e: "effective_volumes profiles ms = (volumes, tv)" by fastforce
  have tv: "tv \<noteq> 0" using effective_total_nonzero [OF assms(1), of ms] e by simp
  obtain t where t: "aggregate_taste tv zero_taste (zip profiles volumes) = Inr t"
    using aggregate_taste_total [OF tv] by blast
  have k: "\<exists>k. aggregate_keywords tv accum pvs = Inr k" for accum pvs
    using tv by (induction tv accum pvs rule: aggregate_keywords.induct) (simp_all add: py_truediv_def)
  obtain kws grps where kw: "aggregate_keywords tv ([], []) (zip profiles volumes) = Inr (kws, grps)"
    using k by (metis surj_pair)
  have f1: "filter (\<lambda>p. num_molecules p > 0) profiles = []" using assms(2) by (simp add: filter_empty_conv)
  have f2: "filter (\<lambda>(p, v). num_molecules p > 0) (zip profiles volumes) = []"
    using assms(2) by (auto simp: filter_empty_conv dest: set_zip_leftD)
  show ?thesis
    using assms(1) by (simp add: aggregate_profiles_def e t kw f1 f2 np_average_def)
qed

text \<open>
  Claim C9 at a cocktail whose only ingredient has no molecular data and no parsed volume.
  The total volume is 0, the fallback gives the uniform weight 1, the taste loop divides by the
  non-zero total, and then \<^verbatim>\<open>np.average\<close> of the molecular weights, taken over the profiles with
  molecules, gets an empty weight array and raises \<^verbatim>\<open>ZeroDivisionError\<close>: the aggregation and
  with it the whole analysis of the cocktail raise.  The lemmas above show that the weights
  themselves are as the claim says.
\<close>

theorem aggregation_raises_without_molecular_data:
  "effective_volumes [empty_profile] [\<lparr>m_value = Some 0\<rparr>] = ([1], 1)
   \<and> volume_weights [empty_profile] [\<lparr>m_value = Some 0\<rparr>] = [Inr 1]
   \<and> aggregate_profiles [empty_profile] [\<lparr>m_value = Some 0\<rparr>] = Inl ZeroDivisionError
   \<and> example_profile ''unobtainium'' = empty_profile
   \<and> analyze_cocktail example_env ''Ghost'' = Inl ZeroDivisionError"
proof -
  have A: "effective_volumes [empty_profile] [\<lparr>m_value = Some 0\<rparr>] = ([1], 1)"
    by (simp add: effective_volumes_def measure_value_def)
  have B: "volume_weights [empty_profile] [\<lparr>m_value = Some 0\<rparr>] = [Inr 1]"
    by (simp add: volume_weights_def A py_truediv_def)
  have C: "aggregate_profiles [empty_profile] [\<lparr>m_value = Some 0\<rparr>] = Inl ZeroDivisionError"
    by (rule no_molecules_raises) (simp_all add: empty_profile_def)
  have D: "example_profile ''unobtainium'' = empty_profile"
    by (simp add: example_profile_def)
  have E: "analyze_cocktail example_env ''Ghost'' = Inl ZeroDivisionError"
    by (simp add: analyze_cocktail_def example_env_def str_lower_def lower_char_def D C)
  show ?thesis by (intro conjI A B C D E)
qed

section \<open>Unknown cocktail names\<close>

lemma unknown_name:
  assumes "find_cocktail (cocktails env) n = None"
  shows "analyze_cocktail env n = Inr (ErrorDict (not_found_message n))"
    and "modify_cocktail env n mods = Inr (ErrorDict (not_found_message n))"
    and "recommend_improvements env n target = Inr (ErrorDict (not_found_message n))"
    and "recommend_improvements_v2 env n target = Inr (ErrorDict (not_found_message n))"
    and "recommend_improvements_v3 env n target = Inr (ErrorDict (not_found_message n))"
    and "find_best_modification_v3 env n k = Inr (ErrorDict (not_found_message n))"
  using assms
  by (simp_all add: analyze_cocktail_def modify_cocktail_def recommend_improvements_def
        recommend_improvements_v2_def recommend_improvements_v3_def recommend_with_def
        find_best_modification_v3_def)

text \<open>
  Claim C5 at a name that matches no cocktail.  The analysis and the selector of V3 return the
  error dictionary; \<^verbatim>\<open>FlavorOptimizerV4.find_best_modification\<close> raises \<^verbatim>\<open>AttributeError\<close>,
  because the analyzer has no method \<^verbatim>\<open>analyze_cocktail_by_name\<close>.
\<close>

theorem v4_selector_raises_on_unknown_name:
  "find_cocktail (cocktails example_env) ''No Such Drink'' = None
   \<and> analyze_cocktail example_env ''No Such Drink'' =
       Inr (ErrorDict (not_found_message ''No Such Drink''))
   \<and> find_best_modification_v3 example_env ''No Such Drink'' 5 =
       Inr (ErrorDict (not_found_message ''No Such Drink''))
   \<and> analyzer_getattr ''analyze_cocktail_by_name'' = Inl AttributeError
   \<and> find_best_modification_v4 example_env ''No Such Drink'' 5 = Inl AttributeError"
proof -
  have A: "find_cocktail (cocktails example_env) ''No Such Drink'' = None"
    by (simp add: example_env_def str_lower_def lower_char_def)
  have D: "analyzer_getattr ''analyze_cocktail_by_name'' = Inl AttributeError"
    by (simp add: analyzer_getattr_def analyzer_attributes_def)
  have E: "find_best_modification_v4 example_env ''No Such Drink'' 5 = Inl AttributeError"
    by (simp add: find_best_modification_v4_def D)
  show ?thesis by (intro conjI A unknown_name(1) [OF A] unknown_name(6) [OF A] D E)
qed

end
